theory Spec2Isabelle
  imports Main
begin

section \<open>Data model\<close>

text \<open>
  The engine (\<^verbatim>\<open>BashEnv\<close>) and its parser (\<^verbatim>\<open>ShellParser\<close>) are embedded as
  HOL functions. Strings are \<^typ>\<open>string\<close>; the model covers inputs whose code units
  are below 256. A thrown JavaScript exception is a value of type \<open>error\<close> carrying
  its message.
\<close>

datatype error = Thrown string

text \<open>
  An exit code is a JavaScript number. The engine and the commands give integers;
  \<^verbatim>\<open>exit\<close> gives what \<^verbatim>\<open>parseInt\<close> gives, which can also be an infinity.
\<close>

datatype js_number = JsInt int | JsInfinity | JsNegInfinity

record exec_result =
  stdout :: string
  stderr :: string
  exitCode :: js_number

datatype redir_type = Stdout | Stderr | Stdin | StderrToStdout

record redirection =
  rtype :: redir_type
  target :: "string option"
  appendFlag :: bool

record parsed_command =
  command :: string
  args :: "string list"
  quotedArgs :: "bool list"
  redirections :: "redirection list"

text \<open>The operator \<^verbatim>\<open>''\<close> (piped) is \<open>OpNone\<close>.\<close>

datatype operator = OpNone | OpAnd | OpOr | OpSemi

record chained_command =
  parsed :: parsed_command
  operator :: operator

record pipeline =
  commands :: "chained_command list"

section \<open>String primitives of the host language\<close>

text \<open>
  \<^verbatim>\<open>\s\<close> in a regular expression and \<^verbatim>\<open>String.prototype.trim\<close> take the same
  characters as white space: tab, line feed, vertical tab, form feed, carriage return,
  space and no-break space (those below 256). The dot of a regular expression without
  the \<^verbatim>\<open>s\<close> flag matches every character but a line terminator.
\<close>

definition isSpace :: "char \<Rightarrow> bool" where
  "isSpace c = (c \<in> set [CHR 0x09, CHR 0x0A, CHR 0x0B, CHR 0x0C, CHR 0x0D, CHR 0x20, CHR 0xA0])"

definition isLineTerminator :: "char \<Rightarrow> bool" where
  "isLineTerminator c = (c = CHR 0x0A \<or> c = CHR 0x0D)"

definition isDigit :: "char \<Rightarrow> bool" where
  "isDigit c = (c \<in> set ''0123456789'')"

definition isNameStart :: "char \<Rightarrow> bool" where
  "isNameStart c = (c \<in> set ''ABCDEFGHIJKLMNOPQRSTUVWXYZabcdefghijklmnopqrstuvwxyz_'')"

definition isNameChar :: "char \<Rightarrow> bool" where
  "isNameChar c = (isNameStart c \<or> isDigit c)"

definition trim :: "string \<Rightarrow> string" where
  "trim s = rev (dropWhile isSpace (rev (dropWhile isSpace s)))"

definition startsWith :: "string \<Rightarrow> string \<Rightarrow> bool" where
  "startsWith s p = (take (length p) s = p)"

section \<open>The environment object\<close>

text \<open>
  \<^verbatim>\<open>this.env\<close> is a plain object: besides its own properties, a read or an
  \<^verbatim>\<open>in\<close> test finds the properties of \<^verbatim>\<open>Object.prototype\<close>. A value is a string
  or, for an inherited name, what the prototype holds there: a built-in function, and
  for \<^verbatim>\<open>__proto__\<close> the prototype itself. \<open>Native n\<close> is the prototype's value under
  \<open>n\<close>. The environment is the map of the own properties.
\<close>

datatype env_value = Str string | Native string

type_synonym environment = "string \<rightharpoonup> env_value"

definition prototypeNames :: "string list" where
  "prototypeNames =
     [''constructor'', ''__defineGetter__'', ''__defineSetter__'', ''hasOwnProperty'',
      ''__lookupGetter__'', ''__lookupSetter__'', ''isPrototypeOf'', ''propertyIsEnumerable'',
      ''toString'', ''valueOf'', ''__proto__'', ''toLocaleString'']"

text \<open>\<^verbatim>\<open>env[name]\<close>, with \<open>None\<close> for \<^verbatim>\<open>undefined\<close>, and \<^verbatim>\<open>name in env\<close>.\<close>

definition envGet :: "environment \<Rightarrow> string \<Rightarrow> env_value option" where
  "envGet e name =
     (case e name of
        Some v \<Rightarrow> Some v
      | None \<Rightarrow> if name \<in> set prototypeNames then Some (Native name) else None)"

definition envHas :: "environment \<Rightarrow> string \<Rightarrow> bool" where
  "envHas e name = (e name \<noteq> None \<or> name \<in> set prototypeNames)"

text \<open>
  \<^verbatim>\<open>env[name] = v\<close>. Without an own property \<^verbatim>\<open>__proto__\<close>, the assignment goes to
  the setter of the prototype, which makes no own property: it ignores a string, and
  given the prototype itself it changes nothing.
\<close>

definition envSet :: "environment \<Rightarrow> string \<Rightarrow> env_value \<Rightarrow> environment" where
  "envSet e name v = (if name = ''__proto__'' \<and> e name = None then e else e(name \<mapsto> v))"

text \<open>
  The string a value becomes when it is appended to a string; for the built-in
  functions, the text Node.js gives.
\<close>

definition valueText :: "env_value \<Rightarrow> string" where
  "valueText v =
     (case v of
        Str str \<Rightarrow> str
      | Native n \<Rightarrow>
          if n = ''__proto__'' then ''[object Object]''
          else if n = ''constructor'' then ''function Object() { [native code] }''
          else ''function '' @ n @ ''() { [native code] }'')"

text \<open>\<^verbatim>\<open>env[name] ?? dflt\<close>, appended to a string.\<close>

definition lookupOr :: "environment \<Rightarrow> string \<Rightarrow> string \<Rightarrow> string" where
  "lookupOr env name dflt = (case envGet env name of Some v \<Rightarrow> valueText v | None \<Rightarrow> dflt)"

section \<open>Expansion engine\<close>

text \<open>
  \<^verbatim>\<open>content.match(/^([^:]+):-(.*)$/)\<close>: a non-empty name without a colon, then
  \<^verbatim>\<open>:-\<close>, then the default, which the dot lets hold no line terminator.
\<close>

definition defaultMatch :: "string \<Rightarrow> (string \<times> string) option" where
  "defaultMatch content =
     (let varName = takeWhile (\<lambda>c. c \<noteq> CHR '':'') content;
          rest = dropWhile (\<lambda>c. c \<noteq> CHR '':'') content
      in if varName \<noteq> [] \<and> take 2 rest = '':-'' \<and> \<not> list_ex isLineTerminator (drop 2 rest)
         then Some (varName, drop 2 rest) else None)"

text \<open>The value substituted for the text between \<^verbatim>\<open>${\<close> and \<^verbatim>\<open>}\<close>.\<close>

definition expandBraced :: "environment \<Rightarrow> string \<Rightarrow> string" where
  "expandBraced env content =
     (case defaultMatch content of
        Some (varName, defaultValue) \<Rightarrow> lookupOr env varName defaultValue
      | None \<Rightarrow> lookupOr env content [])"

text \<open>
  \<^verbatim>\<open>BashEnv.expandVariables\<close>, applied at execution time. The loop index \<open>i\<close> is the
  start of the remaining text; \<open>result\<close> is built front to back.
\<close>

function expandVariables :: "environment \<Rightarrow> string \<Rightarrow> string" where
  "expandVariables env [] = []"
| "expandVariables env [c] = [c]"
| "expandVariables env (c # nextChar # cs) =
     (if c = CHR ''$'' then
        (if nextChar = CHR ''{'' \<and> CHR ''}'' \<in> set cs then
           expandBraced env (takeWhile (\<lambda>x. x \<noteq> CHR ''}'') cs)
             @ expandVariables env (tl (dropWhile (\<lambda>x. x \<noteq> CHR ''}'') cs))
         else if nextChar \<in> set ''@#$?!*'' then
           lookupOr env [nextChar] [] @ expandVariables env cs
         else if isDigit nextChar then
           lookupOr env [nextChar] [] @ expandVariables env cs
         else if isNameStart nextChar then
           lookupOr env (nextChar # takeWhile isNameChar cs) []
             @ expandVariables env (dropWhile isNameChar cs)
         else c # expandVariables env (nextChar # cs))
      else c # expandVariables env (nextChar # cs))"
  by pat_completeness auto
termination
  by (relation "measure (\<lambda>(env, s). length s)")
     (auto simp: less_Suc_eq_le length_dropWhile_le
           intro!: le_SucI order_trans [OF diff_le_self length_dropWhile_le])

text \<open>
  \<^verbatim>\<open>ShellParser.expandVariable\<close>, applied while tokenizing double-quoted text. The
  argument is the text after the \<^verbatim>\<open>$\<close> at \<open>startIndex\<close>; the result is the value and
  the text from \<open>endIndex\<close> on.
\<close>

definition expandVariable :: "environment \<Rightarrow> string \<Rightarrow> string \<times> string" where
  "expandVariable env str =
     (case str of
        [] \<Rightarrow> (''$'', [])
      | c # cs \<Rightarrow>
          if c = CHR ''{'' then
            (if CHR ''}'' \<in> set cs then
               (expandBraced env (takeWhile (\<lambda>x. x \<noteq> CHR ''}'') cs),
                tl (dropWhile (\<lambda>x. x \<noteq> CHR ''}'') cs))
             else (''${'', cs))
          else if c \<in> set ''@#$?!*'' then (lookupOr env [c] [], cs)
          else if isDigit c then (lookupOr env [c] [], cs)
          else if isNameStart c then
            (lookupOr env (c # takeWhile isNameChar cs) [], dropWhile isNameChar cs)
          else (''$'', c # cs))"

section \<open>Tokenizer\<close>

datatype token_type =
    TWord | TPipe | TAnd | TOr | TSemicolon
  | TRedirectStdout | TRedirectStdoutAppend | TRedirectStderr | TRedirectStderrAppend
  | TRedirectStderrToStdout | TRedirectStdin
  | TIf | TThen | TElif | TElse | TFi

text \<open>
  The optional field \<^verbatim>\<open>quoted\<close> is only read as \<^verbatim>\<open>token.quoted ?? false\<close>, so a
  token without it has \<open>quoted = False\<close>.
\<close>

record token =
  ttype :: token_type
  tvalue :: string
  quoted :: bool

definition opToken :: "token_type \<Rightarrow> string \<Rightarrow> token" where
  "opToken ty v = \<lparr>ttype = ty, tvalue = v, quoted = False\<rparr>"

text \<open>
  The closure \<^verbatim>\<open>pushWord\<close>: the token list it leaves and the \<^verbatim>\<open>wasQuoted\<close> flag it
  leaves; \<^verbatim>\<open>current\<close> is empty after it in both of its cases.
\<close>

definition pushWord :: "string \<Rightarrow> bool \<Rightarrow> token list \<Rightarrow> token list" where
  "pushWord current wasQuoted tokens =
     (if current \<noteq> [] then tokens @ [\<lparr>ttype = TWord, tvalue = current, quoted = wasQuoted\<rparr>]
      else tokens)"

definition pushWordQuoted :: "string \<Rightarrow> bool \<Rightarrow> bool" where
  "pushWordQuoted current wasQuoted = (if current \<noteq> [] then False else wasQuoted)"

lemma expandVariable_rest_le: "length (snd (expandVariable env str)) \<le> length str"
  by (auto simp: expandVariable_def length_dropWhile_le split: list.splits
           intro!: le_SucI order_trans [OF diff_le_self length_dropWhile_le])

text \<open>
  \<^verbatim>\<open>ShellParser.tokenize\<close>. The second argument is the input from index \<open>i\<close> on;
  \<open>inQuote\<close> is \<open>None\<close> for \<^verbatim>\<open>null\<close>.
\<close>

function tokenizeLoop ::
  "environment \<Rightarrow> string \<Rightarrow> string \<Rightarrow> char option \<Rightarrow> bool \<Rightarrow> token list \<Rightarrow> token list" where
  "tokenizeLoop env [] current inQuote wasQuoted tokens = pushWord current wasQuoted tokens"
| "tokenizeLoop env (c # cs) current inQuote wasQuoted tokens =
     (if c = CHR 0x5C \<and> cs \<noteq> [] then
        (if inQuote = Some (CHR 0x27) then
           tokenizeLoop env cs (current @ [c]) inQuote wasQuoted tokens
         else if inQuote = Some (CHR 0x22) then
           (if hd cs = CHR 0x22 \<or> hd cs = CHR 0x5C \<or> hd cs = CHR ''$'' \<or> hd cs = CHR 0x60 then
              tokenizeLoop env (tl cs) (current @ [hd cs]) inQuote wasQuoted tokens
            else tokenizeLoop env cs (current @ [c]) inQuote wasQuoted tokens)
         else tokenizeLoop env (tl cs) (current @ [hd cs]) inQuote wasQuoted tokens)
      else if c = CHR ''$'' \<and> inQuote \<noteq> Some (CHR 0x27) then
        (if inQuote = Some (CHR 0x22) then
           tokenizeLoop env (snd (expandVariable env cs))
             (current @ fst (expandVariable env cs)) inQuote wasQuoted tokens
         else tokenizeLoop env cs (current @ [c]) inQuote wasQuoted tokens)
      else if c = CHR 0x22 \<or> c = CHR 0x27 then
        (if inQuote = Some c then tokenizeLoop env cs current None wasQuoted tokens
         else if inQuote = None then tokenizeLoop env cs current (Some c) True tokens
         else tokenizeLoop env cs (current @ [c]) inQuote wasQuoted tokens)
      else if inQuote \<noteq> None then
        tokenizeLoop env cs (current @ [c]) inQuote wasQuoted tokens
      else if c = CHR ''2'' \<and> take 3 cs = ''>&1'' then
        tokenizeLoop env (drop 3 cs) [] inQuote (pushWordQuoted current wasQuoted)
          (pushWord current wasQuoted tokens @ [opToken TRedirectStderrToStdout ''2>&1''])
      else if c = CHR ''2'' \<and> take 2 cs = ''>>'' then
        tokenizeLoop env (drop 2 cs) [] inQuote (pushWordQuoted current wasQuoted)
          (pushWord current wasQuoted tokens @ [opToken TRedirectStderrAppend ''2>>''])
      else if c = CHR ''2'' \<and> take 1 cs = ''>'' then
        tokenizeLoop env (drop 1 cs) [] inQuote (pushWordQuoted current wasQuoted)
          (pushWord current wasQuoted tokens @ [opToken TRedirectStderr ''2>''])
      else if c = CHR ''>'' \<and> take 1 cs = ''>'' then
        tokenizeLoop env (drop 1 cs) [] inQuote (pushWordQuoted current wasQuoted)
          (pushWord current wasQuoted tokens @ [opToken TRedirectStdoutAppend ''>>''])
      else if c = CHR ''>'' then
        tokenizeLoop env cs [] inQuote (pushWordQuoted current wasQuoted)
          (pushWord current wasQuoted tokens @ [opToken TRedirectStdout ''>''])
      else if c = CHR ''<'' then
        tokenizeLoop env cs [] inQuote (pushWordQuoted current wasQuoted)
          (pushWord current wasQuoted tokens @ [opToken TRedirectStdin ''<''])
      else if c = CHR ''&'' \<and> take 1 cs = ''&'' then
        tokenizeLoop env (drop 1 cs) [] inQuote (pushWordQuoted current wasQuoted)
          (pushWord current wasQuoted tokens @ [opToken TAnd ''&&''])
      else if c = CHR ''|'' \<and> take 1 cs = ''|'' then
        tokenizeLoop env (drop 1 cs) [] inQuote (pushWordQuoted current wasQuoted)
          (pushWord current wasQuoted tokens @ [opToken TOr ''||''])
      else if c = CHR ''|'' then
        tokenizeLoop env cs [] inQuote (pushWordQuoted current wasQuoted)
          (pushWord current wasQuoted tokens @ [opToken TPipe ''|''])
      else if c = CHR '';'' then
        tokenizeLoop env cs [] inQuote (pushWordQuoted current wasQuoted)
          (pushWord current wasQuoted tokens @ [opToken TSemicolon '';''])
      else if c = CHR 0x20 \<or> c = CHR 0x09 then
        tokenizeLoop env cs [] inQuote (pushWordQuoted current wasQuoted)
          (pushWord current wasQuoted tokens)
      else tokenizeLoop env cs (current @ [c]) inQuote wasQuoted tokens)"
  by pat_completeness auto
termination
  by (relation "measure (\<lambda>(env, s, r). length s)")
     (auto simp: less_Suc_eq_le expandVariable_rest_le)

definition tokenize :: "environment \<Rightarrow> string \<Rightarrow> token list" where
  "tokenize env input = tokenizeLoop env input [] None False []"

section \<open>Parser\<close>

fun tokenToText :: "token \<Rightarrow> string" where
  "tokenToText t =
     (case ttype t of
        TPipe \<Rightarrow> ''|''
      | TAnd \<Rightarrow> ''&&''
      | TOr \<Rightarrow> ''||''
      | TSemicolon \<Rightarrow> '';''
      | TRedirectStdout \<Rightarrow> ''>''
      | TRedirectStdoutAppend \<Rightarrow> ''>>''
      | TRedirectStderr \<Rightarrow> ''2>''
      | TRedirectStderrAppend \<Rightarrow> ''2>>''
      | TRedirectStderrToStdout \<Rightarrow> ''2>&1''
      | TRedirectStdin \<Rightarrow> ''<''
      | _ \<Rightarrow> tvalue t)"

text \<open>
  \<^verbatim>\<open>ShellParser.collectCompoundCommand\<close>. The token list is \<^verbatim>\<open>tokens\<close> from index
  \<open>i\<close> on (never empty at a call, since \<open>startIndex\<close> is a valid index); the
  result is the text and \<^verbatim>\<open>tokens\<close> from \<open>endIndex\<close> on. When the loop runs off the
  end, \<open>endIndex\<close> is the last index.
\<close>

definition tokenText :: "token \<Rightarrow> string" where
  "tokenText t = (if ttype t = TWord then tvalue t else tokenToText t)"

definition depthAfter :: "token \<Rightarrow> string \<Rightarrow> string \<Rightarrow> int \<Rightarrow> int" where
  "depthAfter t startKeyword endKeyword depth =
     (if ttype t = TWord \<and> tvalue t = startKeyword then depth + 1
      else if ttype t = TWord \<and> tvalue t = endKeyword then depth - 1
      else depth)"

definition closesCompound :: "token \<Rightarrow> string \<Rightarrow> string \<Rightarrow> int \<Rightarrow> bool" where
  "closesCompound t startKeyword endKeyword depth =
     (\<not> (ttype t = TWord \<and> tvalue t = startKeyword)
      \<and> ttype t = TWord \<and> tvalue t = endKeyword \<and> depth - 1 = 0)"

definition spaceAfter :: "token \<Rightarrow> token \<Rightarrow> string" where
  "spaceAfter t nextToken =
     (if ttype t = TWord \<and> ttype nextToken = TWord then '' ''
      else if ttype t \<noteq> TSemicolon \<and> ttype nextToken \<noteq> TSemicolon then '' ''
      else [])"

fun collectCompoundCommand ::
  "token list \<Rightarrow> string \<Rightarrow> string \<Rightarrow> int \<Rightarrow> string \<Rightarrow> string \<times> token list" where
  "collectCompoundCommand [] startKeyword endKeyword depth text = (text, [])"
| "collectCompoundCommand [t] startKeyword endKeyword depth text =
     (text @ tokenText t, [t])"
| "collectCompoundCommand (t # nextToken # ts) startKeyword endKeyword depth text =
     (if closesCompound t startKeyword endKeyword depth
      then (text @ tokenText t, t # nextToken # ts)
      else collectCompoundCommand (nextToken # ts) startKeyword endKeyword
             (depthAfter t startKeyword endKeyword depth)
             (text @ tokenText t @ spaceAfter t nextToken))"

lemma collectCompoundCommand_rest_le:
  "length (snd (collectCompoundCommand ts sk ek depth acc)) \<le> length ts"
  by (induction ts sk ek depth acc rule: collectCompoundCommand.induct) auto

text \<open>
  The closure \<^verbatim>\<open>pushCommand\<close> of \<^verbatim>\<open>buildPipelines\<close>, on the commands of
  \<^verbatim>\<open>currentPipeline\<close>, \<^verbatim>\<open>currentArgs\<close>, \<^verbatim>\<open>currentRedirections\<close> and
  \<^verbatim>\<open>lastOperator\<close>: the three it may change.
\<close>

definition pushCommand ::
  "chained_command list \<Rightarrow> (string \<times> bool) list \<Rightarrow> redirection list \<Rightarrow> operator \<Rightarrow>
   chained_command list \<times> (string \<times> bool) list \<times> redirection list" where
  "pushCommand cmds currentArgs currentRedirections lastOperator =
     (case currentArgs of
        [] \<Rightarrow> (cmds, currentArgs, currentRedirections)
      | commandArg # restArgs \<Rightarrow>
          (cmds @ [\<lparr>parsed = \<lparr>command = fst commandArg, args = map fst restArgs,
                               quotedArgs = map snd restArgs,
                               redirections = currentRedirections\<rparr>,
                    operator = lastOperator\<rparr>], [], []))"

text \<open>
  The loop of \<^verbatim>\<open>ShellParser.buildPipelines\<close>, over \<^verbatim>\<open>tokens\<close> from index \<open>i\<close>
  on. \<^verbatim>\<open>pushPipeline\<close> is called once, after the loop, so the result holds at most
  one pipeline.
\<close>

function buildLoop ::
  "token list \<Rightarrow> chained_command list \<Rightarrow> (string \<times> bool) list \<Rightarrow> redirection list \<Rightarrow> operator \<Rightarrow>
   pipeline list" where
  "buildLoop [] cmds currentArgs currentRedirections lastOperator =
     (case pushCommand cmds currentArgs currentRedirections lastOperator of
        (cmds', _, _) \<Rightarrow> if cmds' \<noteq> [] then [\<lparr>commands = cmds'\<rparr>] else [])"
| "buildLoop (t # ts) cmds currentArgs currentRedirections lastOperator =
     (case ttype t of
        TWord \<Rightarrow>
          if tvalue t = ''if'' \<and> currentArgs = [] then
            buildLoop (snd (collectCompoundCommand (t # ts) ''if'' ''fi'' 0 []))
              cmds
              (currentArgs @ [(fst (collectCompoundCommand (t # ts) ''if'' ''fi'' 0 []), True)])
              currentRedirections lastOperator
          else buildLoop ts cmds (currentArgs @ [(tvalue t, quoted t)])
                 currentRedirections lastOperator
      | TPipe \<Rightarrow>
          (case pushCommand cmds currentArgs currentRedirections lastOperator of
             (cmds', args', redirs') \<Rightarrow> buildLoop ts cmds' args' redirs' OpNone)
      | TAnd \<Rightarrow>
          (case pushCommand cmds currentArgs currentRedirections lastOperator of
             (cmds', args', redirs') \<Rightarrow> buildLoop ts cmds' args' redirs' OpAnd)
      | TOr \<Rightarrow>
          (case pushCommand cmds currentArgs currentRedirections lastOperator of
             (cmds', args', redirs') \<Rightarrow> buildLoop ts cmds' args' redirs' OpOr)
      | TSemicolon \<Rightarrow>
          (case pushCommand cmds currentArgs currentRedirections lastOperator of
             (cmds', args', redirs') \<Rightarrow> buildLoop ts cmds' args' redirs' OpSemi)
      | TRedirectStdout \<Rightarrow>
          (if ts \<noteq> [] \<and> ttype (hd ts) = TWord then
             buildLoop (tl ts) cmds currentArgs
               (currentRedirections @
                  [\<lparr>rtype = Stdout, target = Some (tvalue (hd ts)), appendFlag = False\<rparr>])
               lastOperator
           else buildLoop ts cmds currentArgs currentRedirections lastOperator)
      | TRedirectStdoutAppend \<Rightarrow>
          (if ts \<noteq> [] \<and> ttype (hd ts) = TWord then
             buildLoop (tl ts) cmds currentArgs
               (currentRedirections @
                  [\<lparr>rtype = Stdout, target = Some (tvalue (hd ts)), appendFlag = True\<rparr>])
               lastOperator
           else buildLoop ts cmds currentArgs currentRedirections lastOperator)
      | TRedirectStderr \<Rightarrow>
          (if ts \<noteq> [] \<and> ttype (hd ts) = TWord then
             buildLoop (tl ts) cmds currentArgs
               (currentRedirections @
                  [\<lparr>rtype = Stderr, target = Some (tvalue (hd ts)), appendFlag = False\<rparr>])
               lastOperator
           else buildLoop ts cmds currentArgs currentRedirections lastOperator)
      | TRedirectStderrAppend \<Rightarrow>
          (if ts \<noteq> [] \<and> ttype (hd ts) = TWord then
             buildLoop (tl ts) cmds currentArgs
               (currentRedirections @
                  [\<lparr>rtype = Stderr, target = Some (tvalue (hd ts)), appendFlag = True\<rparr>])
               lastOperator
           else buildLoop ts cmds currentArgs currentRedirections lastOperator)
      | TRedirectStderrToStdout \<Rightarrow>
          buildLoop ts cmds currentArgs
            (currentRedirections @ [\<lparr>rtype = StderrToStdout, target = None, appendFlag = False\<rparr>])
            lastOperator
      | TRedirectStdin \<Rightarrow>
          (if ts \<noteq> [] \<and> ttype (hd ts) = TWord then
             buildLoop (tl ts) cmds currentArgs
               (currentRedirections @
                  [\<lparr>rtype = Stdin, target = Some (tvalue (hd ts)), appendFlag = False\<rparr>])
               lastOperator
           else buildLoop ts cmds currentArgs currentRedirections lastOperator)
      | _ \<Rightarrow> buildLoop ts cmds currentArgs currentRedirections lastOperator)"
  by pat_completeness auto
termination
proof (relation "measure (\<lambda>(ts, cmds, currentArgs, r).
                   2 * length ts + (if currentArgs = [] then 1 else 0))", goal_cases)
  case (2 t ts cmds currentArgs currentRedirections lastOperator)
  have "length (snd (collectCompoundCommand (t # ts) ''if'' ''fi'' 0 [])) \<le> length (t # ts)"
    by (rule collectCompoundCommand_rest_le)
  with 2 show ?case by simp
qed (auto simp: pushCommand_def split: list.splits)

definition buildPipelines :: "token list \<Rightarrow> pipeline list" where
  "buildPipelines tokens = buildLoop tokens [] [] [] OpNone"

definition parse :: "environment \<Rightarrow> string \<Rightarrow> pipeline list" where
  "parse env commandLine = buildPipelines (tokenize env commandLine)"

section \<open>Pipeline executor\<close>

text \<open>
  \<^verbatim>\<open>BashEnv.executePipeline\<close>. The command executor \<open>ec\<close> is
  \<^verbatim>\<open>this.executeCommand\<close>: it takes the parsed command, its stdin and the engine
  state, and returns \<open>None\<close> when it does not return, otherwise the thrown error or
  the result, with the state it leaves. The \<^verbatim>\<open>for\<close> loop is the recursion over the
  remaining commands; \<open>i\<close> is the loop index.
\<close>

fun pipelineLoop ::
  "(parsed_command \<Rightarrow> string \<Rightarrow> 's \<Rightarrow> ((error + exec_result) \<times> 's) option) \<Rightarrow>
   chained_command list \<Rightarrow> nat \<Rightarrow> string \<Rightarrow> string \<Rightarrow> exec_result \<Rightarrow> string \<Rightarrow> string \<Rightarrow> 's \<Rightarrow>
   ((error + exec_result) \<times> 's) option" where
  "pipelineLoop ec [] i initialStdin stdin lastResult accumulatedStdout accumulatedStderr s =
     Some (Inr \<lparr>stdout = accumulatedStdout, stderr = accumulatedStderr,
                exitCode = exitCode lastResult\<rparr>, s)"
| "pipelineLoop ec (c # rest) i initialStdin stdin lastResult accumulatedStdout accumulatedStderr s =
     (let nextOperator = (case rest of [] \<Rightarrow> OpNone | nextCommand # _ \<Rightarrow> operator nextCommand) in
      if operator c = OpAnd \<and> exitCode lastResult \<noteq> JsInt 0 then
        pipelineLoop ec rest (i + 1) initialStdin stdin lastResult accumulatedStdout accumulatedStderr s
      else if operator c = OpOr \<and> exitCode lastResult = JsInt 0 then
        pipelineLoop ec rest (i + 1) initialStdin stdin lastResult accumulatedStdout accumulatedStderr s
      else
        let isPipedInput = (operator c = OpNone);
            isPipedOutput = (nextOperator = OpNone);
            commandStdin = (if isPipedInput \<and> i > 0 then stdin else initialStdin)
        in case ec (parsed c) commandStdin s of
             None \<Rightarrow> None
           | Some (Inl e, s') \<Rightarrow> Some (Inl e, s')
           | Some (Inr result, s') \<Rightarrow>
               if isPipedOutput \<and> rest \<noteq> [] then
                 pipelineLoop ec rest (i + 1) initialStdin (stdout result) result
                   accumulatedStdout (accumulatedStderr @ stderr result) s'
               else
                 pipelineLoop ec rest (i + 1) initialStdin stdin result
                   (accumulatedStdout @ stdout result) (accumulatedStderr @ stderr result) s')"

definition executePipeline ::
  "(parsed_command \<Rightarrow> string \<Rightarrow> 's \<Rightarrow> ((error + exec_result) \<times> 's) option) \<Rightarrow>
   pipeline \<Rightarrow> string \<Rightarrow> 's \<Rightarrow> ((error + exec_result) \<times> 's) option" where
  "executePipeline ec p initialStdin s =
     pipelineLoop ec (commands p) 0 initialStdin initialStdin
       \<lparr>stdout = [], stderr = [], exitCode = JsInt 0\<rparr> [] [] s"

text \<open>
  An observer for statements about which commands run: \<open>traced ec\<close> behaves as
  \<open>ec\<close> and records, beside the state, every call that returned, with the stdin it
  was given and its outcome.
\<close>

type_synonym call_log = "(parsed_command \<times> string \<times> (error + exec_result)) list"

definition traced ::
  "(parsed_command \<Rightarrow> string \<Rightarrow> 's \<Rightarrow> ((error + exec_result) \<times> 's) option) \<Rightarrow>
   parsed_command \<Rightarrow> string \<Rightarrow> 's \<times> call_log \<Rightarrow> ((error + exec_result) \<times> 's \<times> call_log) option" where
  "traced ec c input sl =
     (case ec c input (fst sl) of
        None \<Rightarrow> None
      | Some (r, s') \<Rightarrow> Some (r, s', snd sl @ [(c, input, r)]))"

text \<open>The stderr of the recorded calls that returned a result, in the order of the calls.\<close>

definition loggedStderr :: "call_log \<Rightarrow> string" where
  "loggedStderr calls =
     concat (map (\<lambda>(c, input, r). case r of Inl e \<Rightarrow> [] | Inr res \<Rightarrow> stderr res) calls)"

section \<open>Engine state and collaborators\<close>

text \<open>
  A local scope frame is a \<^verbatim>\<open>Map<string, string | undefined>\<close>: a recorded name maps
  to the value read from the environment, \<open>None\<close> for \<^verbatim>\<open>undefined\<close>.
\<close>

type_synonym scope = "string \<rightharpoonup> env_value option"

text \<open>
  The fields of a \<^verbatim>\<open>BashEnv\<close> instance that \<^verbatim>\<open>exec\<close> reads and writes. The field
  \<^verbatim>\<open>functions\<close> is \<open>functions_map\<close>. The stack \<^verbatim>\<open>localScopes\<close> is held with
  its top frame first. \<open>env\<close> holds the own properties of \<^verbatim>\<open>this.env\<close>.
\<close>

record 'fs bash_env =
  fs :: 'fs
  cwd :: string
  env :: environment
  functions_map :: "string \<rightharpoonup> string"
  previousDir :: string
  localScopes :: "scope list"

text \<open>
  The collaborators, whose sources are not part of the engine: the file system
  (\<^verbatim>\<open>IFileSystem\<close>), the glob expander (\<^verbatim>\<open>GlobExpander.expandArgs\<close>) and the
  registered commands (\<^verbatim>\<open>this.commands\<close>, here \<open>commandRegistry\<close>). They are
  parameters of the model. An operation that throws returns \<open>Inl\<close>; a command gets
  \<^verbatim>\<open>ctx.fs\<close>, \<^verbatim>\<open>ctx.cwd\<close>, \<^verbatim>\<open>ctx.env\<close> and \<^verbatim>\<open>ctx.stdin\<close>, and leaves a file
  system and an environment whether it returns or throws.
\<close>

type_synonym 'fs command_impl =
  "string list \<Rightarrow> 'fs \<Rightarrow> string \<Rightarrow> environment \<Rightarrow> string \<Rightarrow> (error + exec_result) \<times> 'fs \<times> environment"

record 'fs collaborators =
  resolvePath :: "string \<Rightarrow> string \<Rightarrow> string"
  statIsDirectory :: "'fs \<Rightarrow> string \<Rightarrow> error + bool"
  writeFile :: "'fs \<Rightarrow> string \<Rightarrow> string \<Rightarrow> error + 'fs"
  appendFile :: "'fs \<Rightarrow> string \<Rightarrow> string \<Rightarrow> error + 'fs"
  expandArgs :: "'fs \<Rightarrow> string \<Rightarrow> string list \<Rightarrow> bool list \<Rightarrow> error + string list"
  commandRegistry :: "string \<rightharpoonup> 'fs command_impl"

type_synonym 'fs outcome = "((error + exec_result) \<times> 'fs bash_env) option"

definition okResult :: exec_result where
  "okResult = \<lparr>stdout = [], stderr = [], exitCode = JsInt 0\<rparr>"

section \<open>Redirection applier\<close>

text \<open>
  \<^verbatim>\<open>BashEnv.applyRedirections\<close>: the loop over the redirections, on the variables
  \<^verbatim>\<open>stdout\<close> and \<^verbatim>\<open>stderr\<close> and the file system. A write that throws ends the
  loop with the error. The \<^verbatim>\<open>switch\<close> has no case for \<^verbatim>\<open>'stdin'\<close>.
\<close>

fun redirLoop ::
  "'fs collaborators \<Rightarrow> string \<Rightarrow> redirection list \<Rightarrow> string \<Rightarrow> string \<Rightarrow> 'fs \<Rightarrow>
   (error + string \<times> string) \<times> 'fs" where
  "redirLoop C dir [] out err f = (Inr (out, err), f)"
| "redirLoop C dir (redir # rs) out err f =
     (case rtype redir of
        Stdout \<Rightarrow>
          (case target redir of
             None \<Rightarrow> redirLoop C dir rs out err f
           | Some t \<Rightarrow>
               if t \<noteq> [] then
                 (case (if appendFlag redir then appendFile C f (resolvePath C dir t) out
                        else writeFile C f (resolvePath C dir t) out) of
                    Inl e \<Rightarrow> (Inl e, f)
                  | Inr f' \<Rightarrow> redirLoop C dir rs [] err f')
               else redirLoop C dir rs out err f)
      | Stderr \<Rightarrow>
          (case target redir of
             None \<Rightarrow> redirLoop C dir rs out err f
           | Some t \<Rightarrow>
               if t = ''/dev/null'' then redirLoop C dir rs out [] f
               else if t \<noteq> [] then
                 (case (if appendFlag redir then appendFile C f (resolvePath C dir t) err
                        else writeFile C f (resolvePath C dir t) err) of
                    Inl e \<Rightarrow> (Inl e, f)
                  | Inr f' \<Rightarrow> redirLoop C dir rs out [] f')
               else redirLoop C dir rs out err f)
      | StderrToStdout \<Rightarrow> redirLoop C dir rs (out @ err) [] f
      | Stdin \<Rightarrow> redirLoop C dir rs out err f)"

definition applyRedirections ::
  "'fs collaborators \<Rightarrow> string \<Rightarrow> exec_result \<Rightarrow> redirection list \<Rightarrow> 'fs \<Rightarrow>
   (error + exec_result) \<times> 'fs" where
  "applyRedirections C dir result redirs f =
     (case redirLoop C dir redirs (stdout result) (stderr result) f of
        (Inl e, f') \<Rightarrow> (Inl e, f')
      | (Inr (out, err), f') \<Rightarrow>
          (Inr \<lparr>stdout = out, stderr = err, exitCode = exitCode result\<rparr>, f'))"

section \<open>Builtins\<close>

text \<open>\<^verbatim>\<open>String(n)\<close> for a natural number and \<^verbatim>\<open>args.join(' ')\<close>.\<close>

definition digitChar :: "nat \<Rightarrow> char" where
  "digitChar d = ''0123456789'' ! d"

function stringOfNat :: "nat \<Rightarrow> string" where
  "stringOfNat n = (if n < 10 then [digitChar n] else stringOfNat (n div 10) @ [digitChar (n mod 10)])"
  by pat_completeness auto
termination
  by (relation "measure id") auto

declare stringOfNat.simps [simp del]

fun joinSpace :: "string list \<Rightarrow> string" where
  "joinSpace [] = []"
| "joinSpace [a] = a"
| "joinSpace (a # b # xs) = a @ '' '' @ joinSpace (b # xs)"

text \<open>
  \<^verbatim>\<open>arg.indexOf('=')\<close> with the test \<^verbatim>\<open>eqIndex > 0\<close>, as \<^verbatim>\<open>export\<close> and
  \<^verbatim>\<open>local\<close> use it: the name before the first \<^verbatim>\<open>=\<close> and the value after it, when
  there is one and it is not the first character.
\<close>

definition splitAssignment :: "string \<Rightarrow> (string \<times> string) option" where
  "splitAssignment arg =
     (if CHR ''='' \<in> set arg \<and> takeWhile (\<lambda>c. c \<noteq> CHR ''='') arg \<noteq> []
      then Some (takeWhile (\<lambda>c. c \<noteq> CHR ''='') arg, tl (dropWhile (\<lambda>c. c \<noteq> CHR ''='') arg))
      else None)"

text \<open>
  \<^verbatim>\<open>this.env.HOME || '/'\<close>. The engine stores strings only under this name, and the
  empty string is the one string that is falsy.
\<close>

definition homeOrRoot :: "environment \<Rightarrow> string" where
  "homeOrRoot e =
     (case envGet e ''HOME'' of
        Some v \<Rightarrow> if v = Str [] then ''/'' else valueText v
      | None \<Rightarrow> ''/'')"

definition handleCd ::
  "'fs collaborators \<Rightarrow> string list \<Rightarrow> 'fs bash_env \<Rightarrow> exec_result \<times> 'fs bash_env" where
  "handleCd C as s =
     (let tgt = (case as of a # _ \<Rightarrow> if a \<noteq> [] then a else homeOrRoot (env s)
                 | [] \<Rightarrow> homeOrRoot (env s));
          newDir = (if tgt = ''-'' then previousDir s
                    else if tgt = ''~'' then homeOrRoot (env s)
                    else resolvePath C (cwd s) tgt)
      in case statIsDirectory C (fs s) newDir of
           Inl e \<Rightarrow>
             (\<lparr>stdout = [], stderr = ''cd: '' @ tgt @ '': No such file or directory\<newline>'',
               exitCode = JsInt 1\<rparr>, s)
         | Inr isDir \<Rightarrow>
             if \<not> isDir then
               (\<lparr>stdout = [], stderr = ''cd: '' @ tgt @ '': Not a directory\<newline>'',
                 exitCode = JsInt 1\<rparr>, s)
             else (okResult, s\<lparr>previousDir := cwd s, cwd := newDir\<rparr>))"

fun exportLoop :: "string list \<Rightarrow> environment \<Rightarrow> environment" where
  "exportLoop [] e = e"
| "exportLoop (arg # rest) e =
     exportLoop rest
       (case splitAssignment arg of Some (name, v) \<Rightarrow> envSet e name (Str v) | None \<Rightarrow> e)"

definition handleExport :: "string list \<Rightarrow> 'fs bash_env \<Rightarrow> exec_result \<times> 'fs bash_env" where
  "handleExport as s = (okResult, s\<lparr>env := exportLoop as (env s)\<rparr>)"

fun unsetLoop :: "string list \<Rightarrow> environment \<Rightarrow> environment" where
  "unsetLoop [] e = e"
| "unsetLoop (arg # rest) e = unsetLoop rest (e(arg := None))"

definition handleUnset :: "string list \<Rightarrow> 'fs bash_env \<Rightarrow> exec_result \<times> 'fs bash_env" where
  "handleUnset as s = (okResult, s\<lparr>env := unsetLoop as (env s)\<rparr>)"

text \<open>
  \<^verbatim>\<open>parseInt(str, 10)\<close>: leading white space, an optional sign, then the longest run
  of digits; \<open>None\<close> is \<^verbatim>\<open>NaN\<close>. The result is the double nearest to the integer
  the digits denote (ties to the even significand, 53 bits), an infinity from
  \<open>2 ^ 1024\<close> on.
\<close>

definition digitsValue :: "string \<Rightarrow> int" where
  "digitsValue ds =
     foldl (\<lambda>acc d. 10 * acc + int (length (takeWhile (\<lambda>x. x \<noteq> d) ''0123456789''))) 0 ds"

function bitLength :: "int \<Rightarrow> nat" where
  "bitLength n = (if n \<le> 0 then 0 else Suc (bitLength (n div 2)))"
  by pat_completeness auto
termination
  by (relation "measure nat") auto

declare bitLength.simps [simp del]

definition roundToDouble :: "int \<Rightarrow> int" where
  "roundToDouble m =
     (if m < 2 ^ 53 then m
      else
        let k = bitLength m - 53;
            q = m div 2 ^ k;
            r = m mod 2 ^ k
        in (if 2 * r > 2 ^ k \<or> (2 * r = 2 ^ k \<and> odd q) then q + 1 else q) * 2 ^ k)"

definition parseInt :: "string \<Rightarrow> js_number option" where
  "parseInt str =
     (let t = dropWhile isSpace str;
          neg = (t \<noteq> [] \<and> hd t = CHR ''-'');
          u = (if t \<noteq> [] \<and> (hd t = CHR ''-'' \<or> hd t = CHR ''+'') then tl t else t);
          ds = takeWhile isDigit u;
          m = roundToDouble (digitsValue ds)
      in if ds = [] then None
         else if m \<ge> 2 ^ 1024 then Some (if neg then JsNegInfinity else JsInfinity)
         else Some (JsInt (if neg then - m else m)))"

definition handleExit :: "string list \<Rightarrow> exec_result" where
  "handleExit as =
     (case as of
        a # _ \<Rightarrow>
          if a \<noteq> [] then
            (case parseInt a of
               Some code \<Rightarrow> \<lparr>stdout = [], stderr = [], exitCode = code\<rparr>
             | None \<Rightarrow> \<lparr>stdout = [], stderr = [], exitCode = JsInt 1\<rparr>)
          else okResult
      | [] \<Rightarrow> okResult)"

text \<open>
  \<^verbatim>\<open>BashEnv.handleLocal\<close>. \<open>localArg\<close> is one turn of its loop, on the current
  frame and the environment.
\<close>

definition localArg :: "string \<Rightarrow> scope \<times> environment \<Rightarrow> scope \<times> environment" where
  "localArg arg se =
     (let currentScope = fst se;
          e = snd se;
          varName = (case splitAssignment arg of Some (name, v) \<Rightarrow> name | None \<Rightarrow> arg);
          val = (case splitAssignment arg of Some (name, v) \<Rightarrow> Some v | None \<Rightarrow> None);
          scope' = (if currentScope varName = None
                    then currentScope(varName \<mapsto> envGet e varName)
                    else currentScope);
          e' = (case val of
                  Some v \<Rightarrow> envSet e varName (Str v)
                | None \<Rightarrow> if envHas e varName then e else envSet e varName (Str []))
      in (scope', e'))"

fun localLoop :: "string list \<Rightarrow> scope \<times> environment \<Rightarrow> scope \<times> environment" where
  "localLoop [] se = se"
| "localLoop (arg # rest) se = localLoop rest (localArg arg se)"

definition handleLocal :: "string list \<Rightarrow> 'fs bash_env \<Rightarrow> exec_result \<times> 'fs bash_env" where
  "handleLocal as s =
     (case localScopes s of
        [] \<Rightarrow>
          (\<lparr>stdout = [], stderr = ''bash: local: can only be used in a function\<newline>'',
            exitCode = JsInt 1\<rparr>, s)
      | currentScope # outer \<Rightarrow>
          (okResult,
           s\<lparr>env := snd (localLoop as (currentScope, env s)),
             localScopes := fst (localLoop as (currentScope, env s)) # outer\<rparr>))"

section \<open>Control-flow evaluator\<close>

text \<open>
  The regular expressions of \<^verbatim>\<open>parseIfStatement\<close>, applied to the text from
  \<open>pos\<close> on: \<^verbatim>\<open>/^kw\s/\<close> and \<^verbatim>\<open>/^kw(\s|;|$)/\<close>.
\<close>

definition matchKeywordSpace :: "string \<Rightarrow> string \<Rightarrow> bool" where
  "matchKeywordSpace kw r =
     (startsWith r kw \<and> (case drop (length kw) r of [] \<Rightarrow> False | c # _ \<Rightarrow> isSpace c))"

definition matchKeywordEnd :: "string \<Rightarrow> string \<Rightarrow> bool" where
  "matchKeywordEnd kw r =
     (startsWith r kw \<and>
      (case drop (length kw) r of [] \<Rightarrow> True | c # _ \<Rightarrow> isSpace c \<or> c = CHR '';''))"

datatype if_state = SCondition | SBody

text \<open>A branch: its condition (\<open>None\<close> for \<^verbatim>\<open>null\<close>) and its body.\<close>

type_synonym branch = "string option \<times> string"

definition saveBranch :: "string \<Rightarrow> string \<Rightarrow> branch list \<Rightarrow> branch list" where
  "saveBranch currentCondition currentBody branches =
     (if trim currentCondition \<noteq> [] \<or> trim currentBody \<noteq> []
      then branches @ [(Some (trim currentCondition), trim currentBody)]
      else branches)"

definition skipSemiSpace :: "string \<Rightarrow> string" where
  "skipSemiSpace r = dropWhile (\<lambda>c. c = CHR '';'' \<or> c = CHR 0x20) r"

text \<open>
  The \<^verbatim>\<open>while\<close> loop of \<^verbatim>\<open>BashEnv.parseIfStatement\<close>, on \<^verbatim>\<open>rest\<close> from \<open>pos\<close>
  on. It returns the final \<^verbatim>\<open>depth\<close> and \<^verbatim>\<open>branches\<close>.
\<close>

function parseIfLoop ::
  "string \<Rightarrow> int \<Rightarrow> if_state \<Rightarrow> string \<Rightarrow> string \<Rightarrow> branch list \<Rightarrow> int \<times> branch list" where
  "parseIfLoop r depth st currentCondition currentBody branches =
     (if r = [] \<or> depth \<le> 0 then (depth, branches)
      else if matchKeywordSpace ''if'' r then
        parseIfLoop (drop 3 r) (depth + 1) st
          (if st = SCondition then currentCondition @ ''if '' else currentCondition)
          (if st = SCondition then currentBody else currentBody @ ''if '') branches
      else if matchKeywordEnd ''fi'' r then
        (if depth - 1 = 0 then
           (0, if st = SBody
               then branches @ [(if trim currentCondition = [] then None
                                 else Some (trim currentCondition), trim currentBody)]
               else branches)
         else parseIfLoop (drop 2 r) (depth - 1) st
                (if st = SCondition then currentCondition @ ''fi'' else currentCondition)
                (if st = SCondition then currentBody else currentBody @ ''fi'') branches)
      else if depth = 1 \<and> matchKeywordEnd ''then'' r then
        parseIfLoop (skipSemiSpace (drop 4 r)) depth SBody currentCondition currentBody branches
      else if depth = 1 \<and> matchKeywordSpace ''elif'' r then
        parseIfLoop (drop 5 r) depth SCondition [] []
          (saveBranch currentCondition currentBody branches)
      else if depth = 1 \<and> matchKeywordEnd ''else'' r then
        parseIfLoop (skipSemiSpace (drop 4 r)) depth SBody [] []
          (saveBranch currentCondition currentBody branches)
      else if st = SCondition then
        (if hd r = CHR '';'' then
           parseIfLoop (dropWhile (\<lambda>c. c = CHR 0x20) (tl r)) depth st
             currentCondition currentBody branches
         else parseIfLoop (tl r) depth st (currentCondition @ [hd r]) currentBody branches)
      else parseIfLoop (tl r) depth st currentCondition (currentBody @ [hd r]) branches)"
  by pat_completeness auto
termination
  by (relation "measure (\<lambda>(r, x). length r)")
     (auto simp: skipSemiSpace_def less_Suc_eq_le
           intro!: le_less_trans [OF length_dropWhile_le] diff_less)

declare parseIfLoop.simps [simp del]

definition syntaxErrorToken :: string where
  "syntaxErrorToken = ''bash: syntax error near unexpected token\<newline>''"

definition syntaxErrorEof :: string where
  "syntaxErrorEof = ''bash: syntax error: unexpected end of file\<newline>''"

text \<open>
  \<^verbatim>\<open>BashEnv.parseIfStatement\<close>: \<open>Inl\<close> is the result with \<^verbatim>\<open>error\<close> set,
  \<open>Inr\<close> the branches.
\<close>

definition parseIfStatement :: "string \<Rightarrow> string + branch list" where
  "parseIfStatement input =
     (if \<not> (startsWith (trim input) ''if '' \<or> startsWith (trim input) ''if;'')
      then Inl syntaxErrorToken
      else
        (case parseIfLoop (trim (drop 2 (trim input))) 1 SCondition [] [] [] of
           (depth, branches) \<Rightarrow>
             let branches' =
                   (if branches \<noteq> [] \<and> fst (last branches) = Some []
                    then butlast branches @ [(None, snd (last branches))]
                    else branches)
             in if depth \<noteq> 0 then Inl syntaxErrorEof
                else if branches' = [] then Inl syntaxErrorToken
                else Inr branches'))"

text \<open>
  \<^verbatim>\<open>BashEnv.parseFunctionDefinition\<close>. \<open>matchBraceBody\<close> is the tail
  \<^verbatim>\<open>\{(.*)\}\s*$\<close> of both regular expressions (flag \<^verbatim>\<open>s\<close>): the greedy group
  ends at the last \<^verbatim>\<open>}\<close>, after which only white space may follow.
\<close>

definition matchBraceBody :: "string \<Rightarrow> string option" where
  "matchBraceBody r =
     (case r of
        [] \<Rightarrow> None
      | c # t \<Rightarrow>
          if c = CHR ''{'' \<and> rev (dropWhile isSpace (rev t)) \<noteq> []
             \<and> last (rev (dropWhile isSpace (rev t))) = CHR ''}''
          then Some (butlast (rev (dropWhile isSpace (rev t))))
          else None)"

definition funcKeywordMatch :: "string \<Rightarrow> (string \<times> string) option" where
  "funcKeywordMatch input =
     (if startsWith input ''function'' \<and> drop 8 input \<noteq> [] \<and> isSpace (hd (drop 8 input))
         \<and> dropWhile isSpace (drop 8 input) \<noteq> []
         \<and> isNameStart (hd (dropWhile isSpace (drop 8 input)))
      then
        (case matchBraceBody
                (dropWhile isSpace (dropWhile isNameChar (dropWhile isSpace (drop 8 input)))) of
           Some body \<Rightarrow> Some (takeWhile isNameChar (dropWhile isSpace (drop 8 input)), body)
         | None \<Rightarrow> None)
      else None)"

definition parenMatch :: "string \<Rightarrow> (string \<times> string) option" where
  "parenMatch input =
     (if input \<noteq> [] \<and> isNameStart (hd input) then
        (case dropWhile isSpace (dropWhile isNameChar input) of
           [] \<Rightarrow> None
         | c # r1 \<Rightarrow>
             if c = CHR ''('' then
               (case dropWhile isSpace r1 of
                  [] \<Rightarrow> None
                | d # r2 \<Rightarrow>
                    if d = CHR '')'' then
                      (case matchBraceBody (dropWhile isSpace r2) of
                         Some body \<Rightarrow> Some (takeWhile isNameChar input, body)
                       | None \<Rightarrow> None)
                    else None)
             else None)
      else None)"

definition parseFunctionDefinition :: "string \<Rightarrow> (string \<times> string) option" where
  "parseFunctionDefinition input =
     (case funcKeywordMatch input of
        Some (name, body) \<Rightarrow> Some (name, trim body)
      | None \<Rightarrow>
          (case parenMatch input of
             Some (name, body) \<Rightarrow> Some (name, trim body)
           | None \<Rightarrow> None))"

text \<open>
  \<^verbatim>\<open>BashEnv.executeIfStatement\<close>. \<open>rec\<close> is \<^verbatim>\<open>this.exec\<close>. The loop adds to
  \<^verbatim>\<open>stdout\<close> and \<^verbatim>\<open>stderr\<close> once, the body's result, and then breaks.
\<close>

fun ifLoop ::
  "(string \<Rightarrow> 'fs bash_env \<Rightarrow> 'fs outcome) \<Rightarrow> branch list \<Rightarrow> 'fs bash_env \<Rightarrow> 'fs outcome" where
  "ifLoop rec [] s = Some (Inr \<lparr>stdout = [], stderr = [], exitCode = JsInt 0\<rparr>, s)"
| "ifLoop rec (b # bs) s =
     (case fst b of
        None \<Rightarrow>
          (case rec (snd b) s of
             None \<Rightarrow> None
           | Some (Inl e, s') \<Rightarrow> Some (Inl e, s')
           | Some (Inr result, s') \<Rightarrow>
               Some (Inr \<lparr>stdout = [] @ stdout result, stderr = [] @ stderr result,
                          exitCode = exitCode result\<rparr>, s'))
      | Some condition \<Rightarrow>
          (case rec condition s of
             None \<Rightarrow> None
           | Some (Inl e, s') \<Rightarrow> Some (Inl e, s')
           | Some (Inr condResult, s') \<Rightarrow>
               if exitCode condResult = JsInt 0 then
                 (case rec (snd b) s' of
                    None \<Rightarrow> None
                  | Some (Inl e, s'') \<Rightarrow> Some (Inl e, s'')
                  | Some (Inr result, s'') \<Rightarrow>
                      Some (Inr \<lparr>stdout = [] @ stdout result, stderr = [] @ stderr result,
                                 exitCode = exitCode result\<rparr>, s''))
               else ifLoop rec bs s'))"

definition executeIfStatement ::
  "(string \<Rightarrow> 'fs bash_env \<Rightarrow> 'fs outcome) \<Rightarrow> string \<Rightarrow> 'fs bash_env \<Rightarrow> 'fs outcome" where
  "executeIfStatement rec input s =
     (case parseIfStatement input of
        Inl err \<Rightarrow> Some (Inr \<lparr>stdout = [], stderr = err, exitCode = JsInt 2\<rparr>, s)
      | Inr branches \<Rightarrow> ifLoop rec branches s)"

section \<open>Command dispatch\<close>

text \<open>
  \<^verbatim>\<open>args.map((arg, i) => quotedArgs[i] ? arg : this.expandVariables(arg))\<close>; an index
  past the end of \<^verbatim>\<open>quotedArgs\<close> reads \<^verbatim>\<open>undefined\<close>.
\<close>

fun expandUnquoted :: "environment \<Rightarrow> string list \<Rightarrow> bool list \<Rightarrow> string list" where
  "expandUnquoted e [] qs = []"
| "expandUnquoted e (a # as) [] = expandVariables e a # expandUnquoted e as []"
| "expandUnquoted e (a # as) (q # qs) =
     (if q then a else expandVariables e a) # expandUnquoted e as qs"

text \<open>
  The variable assignment \<^verbatim>\<open>VAR=value\<close>: the name before the first \<^verbatim>\<open>=\<close> must
  match \<^verbatim>\<open>/^[a-zA-Z_][a-zA-Z0-9_]*$/\<close>.
\<close>

definition assignmentOf :: "string \<Rightarrow> string list \<Rightarrow> (string \<times> string) option" where
  "assignmentOf expandedCommand expandedArgs =
     (let varName = takeWhile (\<lambda>c. c \<noteq> CHR ''='') expandedCommand in
      if expandedArgs = [] \<and> CHR ''='' \<in> set expandedCommand
         \<and> varName \<noteq> [] \<and> isNameStart (hd varName) \<and> list_all isNameChar (tl varName)
      then Some (varName, tl (dropWhile (\<lambda>c. c \<noteq> CHR ''='') expandedCommand))
      else None)"

text \<open>The positional parameters of a function call: set before the body, deleted after.\<close>

fun setPositional :: "nat \<Rightarrow> string list \<Rightarrow> environment \<Rightarrow> environment" where
  "setPositional i [] e = e"
| "setPositional i (a # as) e =
     setPositional (i + 1) as (envSet e (stringOfNat (i + 1)) (Str a))"

definition bindParameters :: "string list \<Rightarrow> environment \<Rightarrow> environment" where
  "bindParameters expandedArgs e =
     envSet (envSet (setPositional 0 expandedArgs e) ''@'' (Str (joinSpace expandedArgs)))
       ''#'' (Str (stringOfNat (length expandedArgs)))"

definition clearParameters :: "string list \<Rightarrow> environment \<Rightarrow> environment" where
  "clearParameters expandedArgs e =
     (fold (\<lambda>i e'. e'(stringOfNat i := None)) [1 ..< length expandedArgs + 1] e)
       (''@'' := None, ''#'' := None)"

text \<open>
  The loop that pops a frame: each recorded name is assigned its original value, or is
  deleted when that is \<^verbatim>\<open>undefined\<close>. A frame holds a name once and a turn of the
  loop touches the property of its name only, so the order of the loop does not show.
\<close>

definition restoreScope :: "scope \<Rightarrow> environment \<Rightarrow> environment" where
  "restoreScope localScope e =
     (\<lambda>varName. case localScope varName of
                   None \<Rightarrow> e varName
                 | Some None \<Rightarrow> None
                 | Some (Some originalValue) \<Rightarrow> envSet e varName originalValue varName)"

text \<open>
  The call of a user-defined function in \<^verbatim>\<open>executeCommand\<close>. An error thrown by the
  body leaves before the frame is popped. Popping an empty stack yields
  \<^verbatim>\<open>undefined\<close>, and iterating over it throws.
\<close>

definition callFunction ::
  "(string \<Rightarrow> 'fs bash_env \<Rightarrow> 'fs outcome) \<Rightarrow> string \<Rightarrow> string list \<Rightarrow> 'fs bash_env \<Rightarrow>
   'fs outcome" where
  "callFunction rec funcBody expandedArgs s =
     (case rec funcBody
             (s\<lparr>localScopes := Map.empty # localScopes s,
                env := bindParameters expandedArgs (env s)\<rparr>) of
        None \<Rightarrow> None
      | Some (Inl e, s') \<Rightarrow> Some (Inl e, s')
      | Some (Inr result, s') \<Rightarrow>
          (case localScopes s' of
             [] \<Rightarrow> Some (Inl (Thrown ''localScope is not iterable''), s')
           | localScope # outer \<Rightarrow>
               Some (Inr result,
                     s'\<lparr>localScopes := outer,
                        env := clearParameters expandedArgs (restoreScope localScope (env s'))\<rparr>)))"

text \<open>
  \<^verbatim>\<open>expandedCommand.split('/').pop() || expandedCommand\<close> when the name holds a
  \<^verbatim>\<open>/\<close>.
\<close>

definition commandNameOf :: "string \<Rightarrow> string" where
  "commandNameOf expandedCommand =
     (if CHR ''/'' \<in> set expandedCommand \<and> rev (takeWhile (\<lambda>c. c \<noteq> CHR ''/'') (rev expandedCommand)) \<noteq> []
      then rev (takeWhile (\<lambda>c. c \<noteq> CHR ''/'') (rev expandedCommand))
      else expandedCommand)"

text \<open>
  The lookup and run of a registered command, with the \<^verbatim>\<open>try\<close> around
  \<^verbatim>\<open>cmd.execute\<close> and the redirections after it, outside the \<^verbatim>\<open>try\<close>.
\<close>

definition commandResult :: "string \<Rightarrow> error + exec_result \<Rightarrow> exec_result" where
  "commandResult cmd r =
     (case r of
        Inr res \<Rightarrow> res
      | Inl (Thrown message) \<Rightarrow>
          \<lparr>stdout = [], stderr = cmd @ '': '' @ message @ ''\<newline>'', exitCode = JsInt 1\<rparr>)"

definition runRegistered ::
  "'fs collaborators \<Rightarrow> string \<Rightarrow> string \<Rightarrow> string list \<Rightarrow> redirection list \<Rightarrow> string \<Rightarrow>
   'fs bash_env \<Rightarrow> 'fs outcome" where
  "runRegistered C cmd expandedCommand expandedArgs redirs input s =
     (case commandRegistry C (commandNameOf expandedCommand) of
        None \<Rightarrow>
          Some (Inr \<lparr>stdout = [],
                     stderr = ''bash: '' @ expandedCommand @ '': command not found\<newline>'',
                     exitCode = JsInt 127\<rparr>, s)
      | Some impl \<Rightarrow>
          (case impl expandedArgs (fs s) (cwd s) (env s) input of
             (r, f', e') \<Rightarrow>
               let result = commandResult cmd r
               in case applyRedirections C (cwd s) result redirs f' of
                    (r', f'') \<Rightarrow> Some (r', s\<lparr>fs := f'', env := e'\<rparr>)))"

text \<open>\<^verbatim>\<open>BashEnv.executeCommand\<close>; \<open>rec\<close> is \<^verbatim>\<open>this.exec\<close>.\<close>

definition executeCommand ::
  "(string \<Rightarrow> 'fs bash_env \<Rightarrow> 'fs outcome) \<Rightarrow> 'fs collaborators \<Rightarrow>
   string \<Rightarrow> string list \<Rightarrow> bool list \<Rightarrow> redirection list \<Rightarrow> string \<Rightarrow> 'fs bash_env \<Rightarrow>
   'fs outcome" where
  "executeCommand rec C cmd as qs redirs input s =
     (if cmd = [] then Some (Inr okResult, s)
      else if startsWith cmd ''if '' \<or> startsWith cmd ''if;'' then executeIfStatement rec cmd s
      else
        (case expandArgs C (fs s) (cwd s) (expandUnquoted (env s) as qs) qs of
           Inl e \<Rightarrow> Some (Inl e, s)
         | Inr expandedArgs \<Rightarrow>
             let expandedCommand = expandVariables (env s) cmd in
             if expandedCommand = ''cd'' then
               (case handleCd C expandedArgs s of (r, s') \<Rightarrow> Some (Inr r, s'))
             else if expandedCommand = ''export'' then
               (case handleExport expandedArgs s of (r, s') \<Rightarrow> Some (Inr r, s'))
             else if expandedCommand = ''unset'' then
               (case handleUnset expandedArgs s of (r, s') \<Rightarrow> Some (Inr r, s'))
             else if expandedCommand = ''exit'' then Some (Inr (handleExit expandedArgs), s)
             else if expandedCommand = ''local'' then
               (case handleLocal expandedArgs s of (r, s') \<Rightarrow> Some (Inr r, s'))
             else
               (case assignmentOf expandedCommand expandedArgs of
                  Some (varName, val) \<Rightarrow>
                    Some (Inr okResult, s\<lparr>env := envSet (env s) varName (Str val)\<rparr>)
                | None \<Rightarrow>
                    (case functions_map s expandedCommand of
                       None \<Rightarrow> runRegistered C cmd expandedCommand expandedArgs redirs input s
                     | Some funcBody \<Rightarrow>
                         if funcBody \<noteq> [] then callFunction rec funcBody expandedArgs s
                         else runRegistered C cmd expandedCommand expandedArgs redirs input s))))"

text \<open>
  The call \<^verbatim>\<open>this.executeCommand(parsed.command, parsed.args, parsed.quotedArgs,
  parsed.redirections, commandStdin)\<close> of \<^verbatim>\<open>executePipeline\<close>.
\<close>

definition dispatch ::
  "(string \<Rightarrow> 'fs bash_env \<Rightarrow> 'fs outcome) \<Rightarrow> 'fs collaborators \<Rightarrow>
   parsed_command \<Rightarrow> string \<Rightarrow> 'fs bash_env \<Rightarrow> 'fs outcome" where
  "dispatch rec C p input s =
     executeCommand rec C (command p) (args p) (quotedArgs p) (redirections p) input s"

section \<open>Entry point\<close>

text \<open>The loop of \<^verbatim>\<open>exec\<close> over the pipelines.\<close>

fun pipelinesLoop ::
  "(parsed_command \<Rightarrow> string \<Rightarrow> 's \<Rightarrow> ((error + exec_result) \<times> 's) option) \<Rightarrow>
   pipeline list \<Rightarrow> string \<Rightarrow> exec_result \<Rightarrow> 's \<Rightarrow> ((error + exec_result) \<times> 's) option" where
  "pipelinesLoop ec [] input lastResult s = Some (Inr lastResult, s)"
| "pipelinesLoop ec (p # ps) input lastResult s =
     (case executePipeline ec p input s of
        None \<Rightarrow> None
      | Some (Inl e, s') \<Rightarrow> Some (Inl e, s')
      | Some (Inr result, s') \<Rightarrow> pipelinesLoop ec ps (stdout result) result s')"

text \<open>
  \<^verbatim>\<open>BashEnv.exec\<close>. The first argument bounds the nesting of \<^verbatim>\<open>exec\<close> calls
  (conditions, bodies, function bodies): \<open>None\<close> says the bound was too small, and a
  line for which every bound gives \<open>None\<close> is one on which \<^verbatim>\<open>exec\<close> does not
  return.
\<close>

primrec exec :: "nat \<Rightarrow> 'fs collaborators \<Rightarrow> string \<Rightarrow> 'fs bash_env \<Rightarrow> 'fs outcome" where
  "exec 0 C commandLine s = None"
| "exec (Suc n) C commandLine s =
     (if trim commandLine = [] then Some (Inr okResult, s)
      else if startsWith (trim commandLine) ''if '' \<or> startsWith (trim commandLine) ''if;''
              \<or> trim commandLine = ''if''
      then executeIfStatement (exec n C) (trim commandLine) s
      else
        (case parseFunctionDefinition (trim commandLine) of
           Some (name, body) \<Rightarrow>
             Some (Inr okResult, s\<lparr>functions_map := (functions_map s)(name \<mapsto> body)\<rparr>)
         | None \<Rightarrow>
             pipelinesLoop (dispatch (exec n C) C) (parse (env s) commandLine) [] okResult s))"

section \<open>A small set of collaborators\<close>

text \<open>
  Modelled from the spec: the file-system collaborator, the glob expander and the
  utility commands (their sources are not part of the engine; the engine takes them
  through \<^verbatim>\<open>IFileSystem\<close>, \<^verbatim>\<open>GlobExpander\<close> and \<^verbatim>\<open>registerCommand\<close>). This
  instance is an in-memory store of files by absolute path, in which the root is a
  directory and writing to it fails; globbing that leaves every argument as it is;
  and the commands \<^verbatim>\<open>echo\<close>, \<^verbatim>\<open>true\<close>, \<^verbatim>\<open>false\<close> and \<^verbatim>\<open>cat\<close> (of its stdin).
  It serves to run the engine on concrete command lines.
\<close>

type_synonym mem_fs = "string \<rightharpoonup> string"

definition memResolvePath :: "string \<Rightarrow> string \<Rightarrow> string" where
  "memResolvePath dir path =
     (if startsWith path ''/'' then path
      else if dir = ''/'' then dir @ path
      else dir @ ''/'' @ path)"

definition memStat :: "mem_fs \<Rightarrow> string \<Rightarrow> error + bool" where
  "memStat f path =
     (if path = ''/'' then Inr True
      else case f path of
             Some content \<Rightarrow> Inr False
           | None \<Rightarrow> Inl (Thrown (''ENOENT: no such file or directory, stat '' @ path)))"

definition memWriteFile :: "mem_fs \<Rightarrow> string \<Rightarrow> string \<Rightarrow> error + mem_fs" where
  "memWriteFile f path content =
     (if path = ''/'' then Inl (Thrown ''EISDIR: illegal operation on a directory, write'')
      else Inr (f(path \<mapsto> content)))"

definition memAppendFile :: "mem_fs \<Rightarrow> string \<Rightarrow> string \<Rightarrow> error + mem_fs" where
  "memAppendFile f path content =
     (if path = ''/'' then Inl (Thrown ''EISDIR: illegal operation on a directory, write'')
      else Inr (f(path \<mapsto> (case f path of Some old \<Rightarrow> old | None \<Rightarrow> []) @ content)))"

definition echoImpl :: "mem_fs command_impl" where
  "echoImpl as f dir e input =
     (Inr \<lparr>stdout = joinSpace as @ ''\<newline>'', stderr = [], exitCode = JsInt 0\<rparr>, f, e)"

definition trueImpl :: "mem_fs command_impl" where
  "trueImpl as f dir e input = (Inr \<lparr>stdout = [], stderr = [], exitCode = JsInt 0\<rparr>, f, e)"

definition falseImpl :: "mem_fs command_impl" where
  "falseImpl as f dir e input = (Inr \<lparr>stdout = [], stderr = [], exitCode = JsInt 1\<rparr>, f, e)"

definition catImpl :: "mem_fs command_impl" where
  "catImpl as f dir e input = (Inr \<lparr>stdout = input, stderr = [], exitCode = JsInt 0\<rparr>, f, e)"

definition memCollaborators :: "mem_fs collaborators" where
  "memCollaborators =
     \<lparr>resolvePath = memResolvePath,
      statIsDirectory = memStat,
      writeFile = memWriteFile,
      appendFile = memAppendFile,
      expandArgs = (\<lambda>f dir as qs. Inr as),
      commandRegistry = [''echo'' \<mapsto> echoImpl, ''true'' \<mapsto> trueImpl,
                         ''false'' \<mapsto> falseImpl, ''cat'' \<mapsto> catImpl]\<rparr>"

text \<open>The state the constructor leaves for \<^verbatim>\<open>new BashEnv({ files: {} })\<close>.\<close>

definition initialEnv :: "mem_fs bash_env" where
  "initialEnv =
     \<lparr>fs = Map.empty, cwd = ''/'',
      env = [''HOME'' \<mapsto> Str ''/'', ''PATH'' \<mapsto> Str ''/bin:/usr/bin''],
      functions_map = Map.empty, previousDir = ''/home/user'', localScopes = []\<rparr>"

text \<open>A parsed command without quoting and redirections.\<close>

definition simpleCommand :: "string \<Rightarrow> string list \<Rightarrow> parsed_command" where
  "simpleCommand c as =
     \<lparr>command = c, args = as, quotedArgs = map (\<lambda>a. False) as, redirections = []\<rparr>"

text \<open>Successive \<^verbatim>\<open>exec\<close> calls on one instance, each with the bound \<open>n\<close>.\<close>

fun execAll ::
  "nat \<Rightarrow> 'fs collaborators \<Rightarrow> string list \<Rightarrow> 'fs bash_env \<Rightarrow> (error + exec_result) list \<Rightarrow>
   ((error + exec_result) list \<times> 'fs bash_env) option" where
  "execAll n C [] s results = Some (results, s)"
| "execAll n C (l # ls) s results =
     (case exec n C l s of
        None \<Rightarrow> None
      | Some (r, s') \<Rightarrow> execAll n C ls s' (results @ [r]))"

text \<open>
  What successive \<^verbatim>\<open>exec\<close> calls on a fresh instance with these collaborators
  leave: the results, a file's content (\<^verbatim>\<open>readFile\<close>) and a variable's value
  (\<^verbatim>\<open>getEnv\<close>); \<open>None\<close> when a call does not return within the bound.
\<close>

definition resultsOf :: "nat \<Rightarrow> string list \<Rightarrow> (error + exec_result) list option" where
  "resultsOf n ls = map_option fst (execAll n memCollaborators ls initialEnv [])"

definition fileAfter :: "nat \<Rightarrow> string list \<Rightarrow> string \<Rightarrow> string option" where
  "fileAfter n ls path =
     (case execAll n memCollaborators ls initialEnv [] of
        None \<Rightarrow> None
      | Some (results, s) \<Rightarrow> fs s path)"

definition variableAfter :: "nat \<Rightarrow> string list \<Rightarrow> string \<Rightarrow> env_value option" where
  "variableAfter n ls name =
     (case execAll n memCollaborators ls initialEnv [] of
        None \<Rightarrow> None
      | Some (results, s) \<Rightarrow> env s name)"

section \<open>Notions used in the statements\<close>

text \<open>
  A line that \<^verbatim>\<open>exec\<close> passes to the parser: not empty, not an \<^verbatim>\<open>if\<close> statement
  and not a function definition.
\<close>

definition plainLine :: "string \<Rightarrow> bool" where
  "plainLine line =
     (trim line \<noteq> []
      \<and> \<not> (startsWith (trim line) ''if '' \<or> startsWith (trim line) ''if;''
             \<or> trim line = ''if'')
      \<and> parseFunctionDefinition (trim line) = None)"

text \<open>
  The branches were all tried and skipped: each has a condition, whose execution
  returned a result with a non-zero exit code. The value is the state the last
  condition left.
\<close>

fun failingConditions ::
  "(string \<Rightarrow> 'fs bash_env \<Rightarrow> 'fs outcome) \<Rightarrow> branch list \<Rightarrow> 'fs bash_env \<Rightarrow>
   'fs bash_env option" where
  "failingConditions rec [] s = Some s"
| "failingConditions rec (b # bs) s =
     (case fst b of
        None \<Rightarrow> None
      | Some condition \<Rightarrow>
          (case rec condition s of
             Some (Inr condResult, s') \<Rightarrow>
               if exitCode condResult = JsInt 0 then None else failingConditions rec bs s'
           | _ \<Rightarrow> None))"

text \<open>
  The variable an argument of \<^verbatim>\<open>local\<close> names, and the names a function call binds
  and deletes: \<^verbatim>\<open>1\<close> to \<^verbatim>\<open>N\<close>, \<^verbatim>\<open>@\<close> and \<^verbatim>\<open>#\<close>.
\<close>

definition localName :: "string \<Rightarrow> string" where
  "localName arg = (case splitAssignment arg of Some (name, v) \<Rightarrow> name | None \<Rightarrow> arg)"

definition positionalNames :: "string list \<Rightarrow> string list" where
  "positionalNames expandedArgs =
     map stringOfNat [1 ..< length expandedArgs + 1] @ [''@'', ''#'']"

text \<open>
  A redirection of a stream to a file, as the tokenizer builds it for \<^verbatim>\<open>> t\<close>,
  \<^verbatim>\<open>>> t\<close>, \<^verbatim>\<open>2> t\<close> and \<^verbatim>\<open>2>> t\<close>, and the write it stands for: \<^verbatim>\<open>appendFile\<close>
  when the redirection appends, \<^verbatim>\<open>writeFile\<close> otherwise, at the resolved target.
\<close>

definition fileRedirection :: "redir_type \<Rightarrow> string \<Rightarrow> bool \<Rightarrow> redirection" where
  "fileRedirection stream t a = \<lparr>rtype = stream, target = Some t, appendFlag = a\<rparr>"


section \<open>Evaluation of the collaborators\<close>

lemmas engine_defs =
  dispatch_def executeCommand_def runRegistered_def memCollaborators_def initialEnv_def
  commandNameOf_def assignmentOf_def applyRedirections_def startsWith_def lookupOr_def
  isNameStart_def isDigit_def isNameChar_def echoImpl_def trueImpl_def falseImpl_def
  catImpl_def simpleCommand_def okResult_def commandResult_def

lemma dispatch_false:
  "dispatch rec memCollaborators (simpleCommand ''false'' []) input initialEnv =
     Some (Inr \<lparr>stdout = [], stderr = [], exitCode = JsInt 1\<rparr>, initialEnv)"
  by (simp add: engine_defs)

lemma dispatch_true:
  "dispatch rec memCollaborators (simpleCommand ''true'' []) input initialEnv =
     Some (Inr \<lparr>stdout = [], stderr = [], exitCode = JsInt 0\<rparr>, initialEnv)"
  by (simp add: engine_defs)

lemma dispatch_echo_ok:
  "dispatch rec memCollaborators (simpleCommand ''echo'' [''ok'']) input initialEnv =
     Some (Inr \<lparr>stdout = ''ok\<newline>'', stderr = [], exitCode = JsInt 0\<rparr>, initialEnv)"
  by (simp add: engine_defs)

lemma dispatch_cat:
  "dispatch rec memCollaborators (simpleCommand ''cat'' []) input initialEnv =
     Some (Inr \<lparr>stdout = input, stderr = [], exitCode = JsInt 0\<rparr>, initialEnv)"
  by (simp add: engine_defs)

lemma dispatch_missing:
  "dispatch rec memCollaborators (simpleCommand ''nosuch'' []) input initialEnv =
     Some (Inr \<lparr>stdout = [], stderr = ''bash: nosuch: command not found\<newline>'',
                exitCode = JsInt 127\<rparr>, initialEnv)"
  by (simp add: engine_defs)

section \<open>Pipeline executor: operators and pipes\<close>

lemma traced_log:
  "traced ec c input (s, l) = Some (r, s1, l') \<Longrightarrow> l' = l @ [(c, input, r)]"
  by (auto simp: traced_def split: option.splits)

lemma pipelineLoop_stderr:
  "pipelineLoop (traced ec) cs i input sin lastResult accOut accErr (s, log0)
     = Some (Inr r, s', calls)
   \<Longrightarrow> \<exists>log1. calls = log0 @ log1 \<and> stderr r = accErr @ loggedStderr log1"
proof (induction cs arbitrary: i sin lastResult accOut accErr s log0)
  case Nil
  then show ?case by (auto simp: loggedStderr_def)
next
  case (Cons c cs)
  show ?case
  proof (cases "(operator c = OpAnd \<and> exitCode lastResult \<noteq> JsInt 0)
                \<or> (operator c = OpOr \<and> exitCode lastResult = JsInt 0)")
    case True
    with Cons.prems have
      "pipelineLoop (traced ec) cs (i + 1) input sin lastResult accOut accErr (s, log0)
         = Some (Inr r, s', calls)"
      by (auto simp: Let_def split: if_splits)
    from Cons.IH [OF this] show ?thesis .
  next
    case False
    define cin where "cin = (if operator c = OpNone \<and> i > 0 then sin else input)"
    from Cons.prems False obtain res s1 l1 sin' accOut' where
      run: "traced ec (parsed c) cin (s, log0) = Some (Inr res, s1, l1)" and
      rest: "pipelineLoop (traced ec) cs (i + 1) input sin' res accOut' (accErr @ stderr res)
               (s1, l1) = Some (Inr r, s', calls)"
      by (auto simp: Let_def cin_def split: if_splits option.splits sum.splits prod.splits)
    from traced_log [OF run] have l1: "l1 = log0 @ [(parsed c, cin, Inr res)]" .
    from Cons.IH [OF rest] obtain log1 where
      "calls = l1 @ log1"
      "stderr r = (accErr @ stderr res) @ loggedStderr log1" by blast
    with l1 show ?thesis
      by (intro exI [of _ "(parsed c, cin, Inr res) # log1"]) (simp add: loggedStderr_def)
  qed
qed

lemma executePipeline_stderr:
  "executePipeline (traced ec) p input (s, []) = Some (Inr r, s', calls)
   \<Longrightarrow> stderr r = loggedStderr calls"
  unfolding executePipeline_def by (drule pipelineLoop_stderr) auto

text \<open>
  Claim C1. In a pipeline of two commands \<open>A\<close> and \<open>B\<close> where \<open>A\<close> returns a
  result: after \<^verbatim>\<open>A && B\<close> the calls made are \<open>A\<close> then \<open>B\<close> if \<open>A\<close>'s exit code
  is 0 and \<open>A\<close> alone otherwise; after \<^verbatim>\<open>A || B\<close> they are \<open>A\<close> then \<open>B\<close> if the
  exit code is not 0 and \<open>A\<close> alone otherwise; after \<^verbatim>\<open>A ; B\<close> both are called
  whatever the exit code. \<open>B\<close> is given the pipeline's initial stdin and the state
  \<open>A\<close> left.
\<close>

theorem executePipeline_operators:
  assumes A: "ec A input s = Some (Inr rA, s1)"
      and B: "ec B input s1 = Some (oB, s2)"
  shows "executePipeline (traced ec)
           \<lparr>commands = [\<lparr>parsed = A, operator = OpNone\<rparr>, \<lparr>parsed = B, operator = OpAnd\<rparr>]\<rparr>
           input (s, []) =
         (if exitCode rA = JsInt 0
          then Some (case oB of Inl e \<Rightarrow> Inl e
                     | Inr rB \<Rightarrow> Inr \<lparr>stdout = stdout rA @ stdout rB,
                                       stderr = stderr rA @ stderr rB, exitCode = exitCode rB\<rparr>,
                     s2, [(A, input, Inr rA), (B, input, oB)])
          else Some (Inr \<lparr>stdout = stdout rA, stderr = stderr rA, exitCode = exitCode rA\<rparr>,
                     s1, [(A, input, Inr rA)]))
       \<and> executePipeline (traced ec)
           \<lparr>commands = [\<lparr>parsed = A, operator = OpNone\<rparr>, \<lparr>parsed = B, operator = OpOr\<rparr>]\<rparr>
           input (s, []) =
         (if exitCode rA \<noteq> JsInt 0
          then Some (case oB of Inl e \<Rightarrow> Inl e
                     | Inr rB \<Rightarrow> Inr \<lparr>stdout = stdout rA @ stdout rB,
                                       stderr = stderr rA @ stderr rB, exitCode = exitCode rB\<rparr>,
                     s2, [(A, input, Inr rA), (B, input, oB)])
          else Some (Inr \<lparr>stdout = stdout rA, stderr = stderr rA, exitCode = exitCode rA\<rparr>,
                     s1, [(A, input, Inr rA)]))
       \<and> executePipeline (traced ec)
           \<lparr>commands = [\<lparr>parsed = A, operator = OpNone\<rparr>, \<lparr>parsed = B, operator = OpSemi\<rparr>]\<rparr>
           input (s, []) =
         Some (case oB of Inl e \<Rightarrow> Inl e
               | Inr rB \<Rightarrow> Inr \<lparr>stdout = stdout rA @ stdout rB,
                                 stderr = stderr rA @ stderr rB, exitCode = exitCode rB\<rparr>,
               s2, [(A, input, Inr rA), (B, input, oB)])"
  using A B by (auto simp: executePipeline_def traced_def split: sum.splits)

theorem executePipeline_operators_witness:
  "executePipeline (traced (dispatch (exec 0 memCollaborators) memCollaborators))
     \<lparr>commands = [\<lparr>parsed = simpleCommand ''false'' [], operator = OpNone\<rparr>,
                  \<lparr>parsed = simpleCommand ''echo'' [''ok''], operator = OpAnd\<rparr>]\<rparr>
     [] (initialEnv, []) =
   Some (Inr \<lparr>stdout = [], stderr = [], exitCode = JsInt 1\<rparr>, initialEnv,
         [(simpleCommand ''false'' [], [], Inr \<lparr>stdout = [], stderr = [], exitCode = JsInt 1\<rparr>)])
   \<and> executePipeline (traced (dispatch (exec 0 memCollaborators) memCollaborators))
     \<lparr>commands = [\<lparr>parsed = simpleCommand ''false'' [], operator = OpNone\<rparr>,
                  \<lparr>parsed = simpleCommand ''echo'' [''ok''], operator = OpOr\<rparr>]\<rparr>
     [] (initialEnv, []) =
   Some (Inr \<lparr>stdout = ''ok\<newline>'', stderr = [], exitCode = JsInt 0\<rparr>, initialEnv,
         [(simpleCommand ''false'' [], [], Inr \<lparr>stdout = [], stderr = [], exitCode = JsInt 1\<rparr>),
          (simpleCommand ''echo'' [''ok''], [],
           Inr \<lparr>stdout = ''ok\<newline>'', stderr = [], exitCode = JsInt 0\<rparr>)])
   \<and> executePipeline (traced (dispatch (exec 0 memCollaborators) memCollaborators))
     \<lparr>commands = [\<lparr>parsed = simpleCommand ''false'' [], operator = OpNone\<rparr>,
                  \<lparr>parsed = simpleCommand ''echo'' [''ok''], operator = OpSemi\<rparr>]\<rparr>
     [] (initialEnv, []) =
   Some (Inr \<lparr>stdout = ''ok\<newline>'', stderr = [], exitCode = JsInt 0\<rparr>, initialEnv,
         [(simpleCommand ''false'' [], [], Inr \<lparr>stdout = [], stderr = [], exitCode = JsInt 1\<rparr>),
          (simpleCommand ''echo'' [''ok''], [],
           Inr \<lparr>stdout = ''ok\<newline>'', stderr = [], exitCode = JsInt 0\<rparr>)])"
  using executePipeline_operators
          [where ec = "dispatch (exec 0 memCollaborators) memCollaborators"
             and A = "simpleCommand ''false'' []" and B = "simpleCommand ''echo'' [''ok'']"
             and input = "[]" and s = initialEnv, OF dispatch_false dispatch_echo_ok]
  by simp

text \<open>
  Claim C2. In a pipeline \<^verbatim>\<open>A | B\<close> where both commands return a result, \<open>B\<close> is
  called after \<open>A\<close> has returned, in the state \<open>A\<close> left, with exactly \<open>A\<close>'s
  stdout as its stdin; the pipeline's stdout is \<open>B\<close>'s stdout, to which \<open>A\<close>'s is
  not added; its stderr is \<open>A\<close>'s followed by \<open>B\<close>'s. In every pipeline that returns
  a result, the stderr of the result is the stderr of the commands called, in order.
\<close>

theorem executePipeline_pipe:
  assumes A: "ec A input s = Some (Inr rA, s1)"
      and B: "ec B (stdout rA) s1 = Some (Inr rB, s2)"
  shows "executePipeline (traced ec)
           \<lparr>commands = [\<lparr>parsed = A, operator = OpNone\<rparr>, \<lparr>parsed = B, operator = OpNone\<rparr>]\<rparr>
           input (s, []) =
         Some (Inr \<lparr>stdout = stdout rB, stderr = stderr rA @ stderr rB, exitCode = exitCode rB\<rparr>,
               s2, [(A, input, Inr rA), (B, stdout rA, Inr rB)])
       \<and> (\<forall>p i0 s0 r s' calls.
             executePipeline (traced ec) p i0 (s0, []) = Some (Inr r, s', calls)
             \<longrightarrow> stderr r = loggedStderr calls)"
proof
  show "executePipeline (traced ec)
           \<lparr>commands = [\<lparr>parsed = A, operator = OpNone\<rparr>, \<lparr>parsed = B, operator = OpNone\<rparr>]\<rparr>
           input (s, []) =
         Some (Inr \<lparr>stdout = stdout rB, stderr = stderr rA @ stderr rB, exitCode = exitCode rB\<rparr>,
               s2, [(A, input, Inr rA), (B, stdout rA, Inr rB)])"
    using A B by (auto simp: executePipeline_def traced_def)
  show "\<forall>p i0 s0 r s' calls.
          executePipeline (traced ec) p i0 (s0, []) = Some (Inr r, s', calls)
          \<longrightarrow> stderr r = loggedStderr calls"
    by (blast dest: executePipeline_stderr)
qed

theorem executePipeline_pipe_witness:
  "executePipeline (traced (dispatch (exec 0 memCollaborators) memCollaborators))
     \<lparr>commands = [\<lparr>parsed = simpleCommand ''nosuch'' [], operator = OpNone\<rparr>,
                  \<lparr>parsed = simpleCommand ''cat'' [], operator = OpNone\<rparr>]\<rparr>
     ''in'' (initialEnv, []) =
   Some (Inr \<lparr>stdout = [], stderr = ''bash: nosuch: command not found\<newline>'', exitCode = JsInt 0\<rparr>,
         initialEnv,
         [(simpleCommand ''nosuch'' [], ''in'',
           Inr \<lparr>stdout = [], stderr = ''bash: nosuch: command not found\<newline>'',
                exitCode = JsInt 127\<rparr>),
          (simpleCommand ''cat'' [], [], Inr \<lparr>stdout = [], stderr = [], exitCode = JsInt 0\<rparr>)])
   \<and> ''bash: nosuch: command not found\<newline>'' =
     loggedStderr
       [(simpleCommand ''nosuch'' [], ''in'',
         Inr \<lparr>stdout = [], stderr = ''bash: nosuch: command not found\<newline>'',
              exitCode = JsInt 127\<rparr>),
        (simpleCommand ''cat'' [], [], Inr \<lparr>stdout = [], stderr = [], exitCode = JsInt 0\<rparr>)]"
proof -
  note inst = executePipeline_pipe
                [where ec = "dispatch (exec 0 memCollaborators) memCollaborators"
                   and A = "simpleCommand ''nosuch'' []" and B = "simpleCommand ''cat'' []"
                   and input = "''in''" and s = initialEnv, OF dispatch_missing dispatch_cat]
  from inst have run:
    "executePipeline (traced (dispatch (exec 0 memCollaborators) memCollaborators))
       \<lparr>commands = [\<lparr>parsed = simpleCommand ''nosuch'' [], operator = OpNone\<rparr>,
                    \<lparr>parsed = simpleCommand ''cat'' [], operator = OpNone\<rparr>]\<rparr>
       ''in'' (initialEnv, []) =
     Some (Inr \<lparr>stdout = [], stderr = ''bash: nosuch: command not found\<newline>'', exitCode = JsInt 0\<rparr>,
           initialEnv,
           [(simpleCommand ''nosuch'' [], ''in'',
             Inr \<lparr>stdout = [], stderr = ''bash: nosuch: command not found\<newline>'',
                  exitCode = JsInt 127\<rparr>),
            (simpleCommand ''cat'' [], [], Inr \<lparr>stdout = [], stderr = [], exitCode = JsInt 0\<rparr>)])"
    by simp
  from inst run show ?thesis by (simp add: loggedStderr_def)
qed

section \<open>Parser: the pipelines it returns\<close>

lemma pushCommand_Nil: "pushCommand cmds [] redirs op = (cmds, [], redirs)"
  by (simp add: pushCommand_def)

lemma pushCommand_Cons:
  "pushCommand cmds (a # as) redirs op =
     (cmds @ [\<lparr>parsed = \<lparr>command = fst a, args = map fst as, quotedArgs = map snd as,
                         redirections = redirs\<rparr>, operator = op\<rparr>], [], [])"
  by (simp add: pushCommand_def)

lemma buildLoop_nonempty:
  "list_all (\<lambda>p. commands p \<noteq> []) (buildLoop toks cmds as redirs op)
   \<and> length (buildLoop toks cmds as redirs op) \<le> 1"
proof (induction toks cmds as redirs op rule: buildLoop.induct)
  case (1 cmds as redirs op)
  then show ?case by (cases as) (auto simp: pushCommand_Nil pushCommand_Cons)
next
  case (2 t ts cmds as redirs op)
  show ?case
  proof (cases "ttype t")
    case TWord
    with 2 show ?thesis by (cases as) auto
  next
    case TPipe
    with 2 show ?thesis by (cases as) (auto simp: pushCommand_Nil pushCommand_Cons)
  next
    case TAnd
    with 2 show ?thesis by (cases as) (auto simp: pushCommand_Nil pushCommand_Cons)
  next
    case TOr
    with 2 show ?thesis by (cases as) (auto simp: pushCommand_Nil pushCommand_Cons)
  next
    case TSemicolon
    with 2 show ?thesis by (cases as) (auto simp: pushCommand_Nil pushCommand_Cons)
  qed (use 2 in auto)
qed

text \<open>
  Once the first command of the pipeline is there, it stays; and while no command is
  there but words are, the first command will get the current \<^verbatim>\<open>lastOperator\<close>.
\<close>

lemma buildLoop_first_op:
  assumes "cmds \<noteq> [] \<and> operator (hd cmds) = OpNone \<or> cmds = [] \<and> as \<noteq> [] \<and> op = OpNone"
  shows "\<exists>p. buildLoop toks cmds as redirs op = [p] \<and> commands p \<noteq> []
             \<and> operator (hd (commands p)) = OpNone"
  using assms
proof (induction toks cmds as redirs op rule: buildLoop.induct)
  case (1 cmds as redirs op)
  then show ?case by (cases as) (auto simp: pushCommand_Nil pushCommand_Cons)
next
  case (2 t ts cmds as redirs op)
  show ?case
  proof (cases "ttype t")
    case TWord
    with 2 show ?thesis by (cases as) auto
  next
    case TPipe
    with 2 show ?thesis by (cases as) (auto simp: pushCommand_Nil pushCommand_Cons)
  next
    case TAnd
    with 2 show ?thesis by (cases as) (auto simp: pushCommand_Nil pushCommand_Cons)
  next
    case TOr
    with 2 show ?thesis by (cases as) (auto simp: pushCommand_Nil pushCommand_Cons)
  next
    case TSemicolon
    with 2 show ?thesis by (cases as) (auto simp: pushCommand_Nil pushCommand_Cons)
  qed (use 2 in auto)
qed

text \<open>
  Claim C8 does not hold of the code: for an input that begins with an operator, the
  first command of the pipeline carries that operator. The parse of \<^verbatim>\<open>; echo a\<close> is
  one pipeline whose first command has the operator \<^verbatim>\<open>;\<close>, and the parse of
  \<^verbatim>\<open>|| echo a\<close> one whose first command has the operator \<^verbatim>\<open>||\<close>. The executor
  applies it to its initial result, of exit code 0: \<^verbatim>\<open>|| echo a\<close> runs nothing and
  returns exit code 0 with empty output, where \<^verbatim>\<open>echo a\<close> prints \<^verbatim>\<open>a\<close>.
\<close>

theorem leading_operator_kept:
  "buildPipelines (tokenize Map.empty ''; echo a'') =
     [\<lparr>commands = [\<lparr>parsed = \<lparr>command = ''echo'', args = [''a''], quotedArgs = [False],
                                redirections = []\<rparr>,
                     operator = OpSemi\<rparr>]\<rparr>]
   \<and> buildPipelines (tokenize Map.empty ''|| echo a'') =
     [\<lparr>commands = [\<lparr>parsed = \<lparr>command = ''echo'', args = [''a''], quotedArgs = [False],
                                redirections = []\<rparr>,
                     operator = OpOr\<rparr>]\<rparr>]
   \<and> resultsOf 1 [''|| echo a''] = Some [Inr \<lparr>stdout = [], stderr = [], exitCode = JsInt 0\<rparr>]
   \<and> resultsOf 1 [''echo a'']
       = Some [Inr \<lparr>stdout = ''a\<newline>'', stderr = [], exitCode = JsInt 0\<rparr>]"
  by code_simp

text \<open>
  What holds of the parser for every token stream: every pipeline it returns is
  non-empty, and it returns at most one; when the stream begins with a word, it returns
  one pipeline and the first command of that pipeline has the operator \<^verbatim>\<open>''\<close>.
\<close>

theorem buildPipelines_first_operator:
  "list_all (\<lambda>p. commands p \<noteq> []) (buildPipelines toks)
   \<and> length (buildPipelines toks) \<le> 1
   \<and> (ttype t = TWord \<longrightarrow>
        (\<exists>p. buildPipelines (t # ts) = [p] \<and> commands p \<noteq> []
              \<and> operator (hd (commands p)) = OpNone))"
proof (intro conjI impI)
  show "list_all (\<lambda>p. commands p \<noteq> []) (buildPipelines toks)"
    using buildLoop_nonempty [of toks "[]" "[]" "[]" OpNone] by (simp add: buildPipelines_def)
  show "length (buildPipelines toks) \<le> 1"
    using buildLoop_nonempty [of toks "[]" "[]" "[]" OpNone] by (simp add: buildPipelines_def)
next
  assume w: "ttype t = TWord"
  show "\<exists>p. buildPipelines (t # ts) = [p] \<and> commands p \<noteq> []
             \<and> operator (hd (commands p)) = OpNone"
  proof (cases "tvalue t = ''if''")
    case True
    have "\<exists>p. buildLoop (snd (collectCompoundCommand (t # ts) ''if'' ''fi'' 0 [])) []
                 [(fst (collectCompoundCommand (t # ts) ''if'' ''fi'' 0 []), True)] [] OpNone = [p]
               \<and> commands p \<noteq> [] \<and> operator (hd (commands p)) = OpNone"
      by (rule buildLoop_first_op) simp
    with w True show ?thesis by (simp add: buildPipelines_def)
  next
    case False
    have "\<exists>p. buildLoop ts [] [(tvalue t, quoted t)] [] OpNone = [p]
               \<and> commands p \<noteq> [] \<and> operator (hd (commands p)) = OpNone"
      by (rule buildLoop_first_op) simp
    with w False show ?thesis by (simp add: buildPipelines_def)
  qed
qed

lemma tokenize_echo_and:
  "tokenize Map.empty ''echo a && b'' =
     \<lparr>ttype = TWord, tvalue = ''echo'', quoted = False\<rparr>
     # [\<lparr>ttype = TWord, tvalue = ''a'', quoted = False\<rparr>, opToken TAnd ''&&'',
        \<lparr>ttype = TWord, tvalue = ''b'', quoted = False\<rparr>]"
  by code_simp

theorem buildPipelines_first_operator_witness:
  "list_all (\<lambda>p. commands p \<noteq> []) (buildPipelines (tokenize Map.empty ''; echo a''))
   \<and> length (buildPipelines (tokenize Map.empty ''; echo a'')) \<le> 1
   \<and> ttype \<lparr>ttype = TWord, tvalue = ''echo'', quoted = False\<rparr> = TWord
   \<and> (\<exists>p. buildPipelines (tokenize Map.empty ''echo a && b'') = [p] \<and> commands p \<noteq> []
            \<and> operator (hd (commands p)) = OpNone)"
  using buildPipelines_first_operator
          [of "tokenize Map.empty ''; echo a''"
              "\<lparr>ttype = TWord, tvalue = ''echo'', quoted = False\<rparr>"
              "[\<lparr>ttype = TWord, tvalue = ''a'', quoted = False\<rparr>, opToken TAnd ''&&'',
                \<lparr>ttype = TWord, tvalue = ''b'', quoted = False\<rparr>]"]
  by (simp add: tokenize_echo_and)

section \<open>Stdin redirections\<close>

lemma redirLoop_filter_stdin:
  "redirLoop C dir (filter (\<lambda>r. rtype r \<noteq> Stdin) redirs) out err f
     = redirLoop C dir redirs out err f"
  by (induction C dir redirs out err f rule: redirLoop.induct)
     (auto split: redir_type.splits option.splits sum.splits)

lemma applyRedirections_filter_stdin:
  "applyRedirections C dir res (filter (\<lambda>r. rtype r \<noteq> Stdin) redirs) f
     = applyRedirections C dir res redirs f"
  by (simp add: applyRedirections_def redirLoop_filter_stdin)

lemma tokenize_cat_stdin:
  "tokenize Map.empty ''cat < file'' =
     [\<lparr>ttype = TWord, tvalue = ''cat'', quoted = False\<rparr>, opToken TRedirectStdin ''<'',
      \<lparr>ttype = TWord, tvalue = ''file'', quoted = False\<rparr>]"
  by code_simp

text \<open>
  Claim C10. A command word followed by \<^verbatim>\<open><\<close> and a word is parsed into a command
  with a redirection of type \<^verbatim>\<open>stdin\<close> to that word. The redirection is never
  applied: for every collaborator, state and stdin, executing a command gives the same
  outcome and the same state as executing it with its stdin redirections removed, so
  nothing depends on the target and no file is read for it.
\<close>

theorem stdin_redirection_ignored:
  "executeCommand rec C cmd as qs redirs input s
     = executeCommand rec C cmd as qs (filter (\<lambda>r. rtype r \<noteq> Stdin) redirs) input s
   \<and> (c \<noteq> ''if'' \<longrightarrow>
        buildPipelines [\<lparr>ttype = TWord, tvalue = c, quoted = q\<rparr>, opToken TRedirectStdin ''<'',
                        \<lparr>ttype = TWord, tvalue = file, quoted = q'\<rparr>] =
        [\<lparr>commands =
            [\<lparr>parsed = \<lparr>command = c, args = [], quotedArgs = [],
                         redirections = [\<lparr>rtype = Stdin, target = Some file,
                                          appendFlag = False\<rparr>]\<rparr>,
              operator = OpNone\<rparr>]\<rparr>])"
proof (intro conjI impI)
  show "executeCommand rec C cmd as qs redirs input s
          = executeCommand rec C cmd as qs (filter (\<lambda>r. rtype r \<noteq> Stdin) redirs) input s"
    unfolding executeCommand_def runRegistered_def applyRedirections_filter_stdin
    by (rule refl)
next
  assume "c \<noteq> ''if''"
  then show "buildPipelines [\<lparr>ttype = TWord, tvalue = c, quoted = q\<rparr>,
                             opToken TRedirectStdin ''<'',
                             \<lparr>ttype = TWord, tvalue = file, quoted = q'\<rparr>] =
        [\<lparr>commands =
            [\<lparr>parsed = \<lparr>command = c, args = [], quotedArgs = [],
                         redirections = [\<lparr>rtype = Stdin, target = Some file,
                                          appendFlag = False\<rparr>]\<rparr>,
              operator = OpNone\<rparr>]\<rparr>]"
    by (simp add: buildPipelines_def opToken_def pushCommand_def)
qed

theorem stdin_redirection_ignored_witness:
  "executeCommand (exec 0 memCollaborators) memCollaborators ''cat'' [] []
     [\<lparr>rtype = Stdin, target = Some ''file'', appendFlag = False\<rparr>] ''in'' initialEnv
     = Some (Inr \<lparr>stdout = ''in'', stderr = [], exitCode = JsInt 0\<rparr>, initialEnv)
   \<and> ''cat'' \<noteq> ''if''
   \<and> parse Map.empty ''cat < file'' =
       [\<lparr>commands =
           [\<lparr>parsed = \<lparr>command = ''cat'', args = [], quotedArgs = [],
                        redirections = [\<lparr>rtype = Stdin, target = Some ''file'',
                                         appendFlag = False\<rparr>]\<rparr>,
             operator = OpNone\<rparr>]\<rparr>]"
  using stdin_redirection_ignored
          [of "exec 0 memCollaborators" memCollaborators "''cat''" "[]" "[]"
              "[\<lparr>rtype = Stdin, target = Some ''file'', appendFlag = False\<rparr>]" "''in''"
              initialEnv "''cat''" False "''file''" False]
        dispatch_cat [of "exec 0 memCollaborators" "''in''"]
  by (simp add: parse_def tokenize_cat_stdin dispatch_def simpleCommand_def)

section \<open>If statements\<close>

lemma exec_plain:
  "plainLine line \<Longrightarrow>
   exec (Suc n) C line s = pipelinesLoop (dispatch (exec n C) C) (parse (env s) line) [] okResult s"
  by (simp add: plainLine_def)

lemma exec_single:
  assumes "plainLine line"
      and "parse (env s) line = [\<lparr>commands = [\<lparr>parsed = p, operator = OpNone\<rparr>]\<rparr>]"
      and "dispatch (exec n C) C p [] s = Some (Inr r, s')"
  shows "exec (Suc n) C line s = Some (Inr r, s')"
  using assms by (simp add: exec_plain executePipeline_def del: exec.simps)

lemma ifLoop_skip:
  "failingConditions rec pre s = Some s1 \<Longrightarrow> ifLoop rec (pre @ bs) s = ifLoop rec bs s1"
  by (induction pre arbitrary: s)
     (auto split: option.splits sum.splits prod.splits if_splits)

text \<open>
  Claim C3 does not hold of the code: the result of an if statement is the result of
  the body alone, and the stdout and the stderr of the conditions executed are dropped.
  \<^verbatim>\<open>if echo c; then echo b; fi\<close> gives the stdout \<^verbatim>\<open>b\<close> without the \<^verbatim>\<open>c\<close> of the
  condition, and \<^verbatim>\<open>if nosuch; then echo a; fi\<close> gives an empty stderr although its
  condition, run alone, reports \<^verbatim>\<open>bash: nosuch: command not found\<close>.
\<close>

theorem executeIfStatement_drops_condition_output:
  "resultsOf 3 [''if echo c; then echo b; fi'']
     = Some [Inr \<lparr>stdout = ''b\<newline>'', stderr = [], exitCode = JsInt 0\<rparr>]
   \<and> resultsOf 3 [''if nosuch; then echo a; fi'']
     = Some [Inr \<lparr>stdout = [], stderr = [], exitCode = JsInt 0\<rparr>]
   \<and> resultsOf 3 [''nosuch'']
     = Some [Inr \<lparr>stdout = [], stderr = ''bash: nosuch: command not found\<newline>'',
                  exitCode = JsInt 127\<rparr>]"
  by code_simp

text \<open>
  What \<^verbatim>\<open>executeIfStatement\<close> returns. When the branches before it were tried and
  skipped and the condition of a branch returns exit code 0, or the branch is the else
  branch, and its body returns a result, then the if-statement's stdout, stderr and exit
  code are the body's; the output of the conditions executed is discarded. When every
  branch was tried and skipped and there is no else, the result is exit code 0 with empty
  stdout and stderr.
\<close>

theorem executeIfStatement_result:
  "(parseIfStatement input = Inr (pre @ (Some condition, body) # post)
      \<and> failingConditions rec pre s = Some sa
      \<and> rec condition sa = Some (Inr condResult, sb) \<and> exitCode condResult = JsInt 0
      \<and> rec body sb = Some (Inr result, sc)
     \<longrightarrow> executeIfStatement rec input s =
           Some (Inr \<lparr>stdout = stdout result, stderr = stderr result, exitCode = exitCode result\<rparr>, sc))
   \<and> (parseIfStatement input = Inr (pre @ (None, body) # post)
      \<and> failingConditions rec pre s = Some sa
      \<and> rec body sa = Some (Inr result, sb)
     \<longrightarrow> executeIfStatement rec input s =
           Some (Inr \<lparr>stdout = stdout result, stderr = stderr result, exitCode = exitCode result\<rparr>, sb))
   \<and> (parseIfStatement input = Inr pre \<and> failingConditions rec pre s = Some sa
     \<longrightarrow> executeIfStatement rec input s =
           Some (Inr \<lparr>stdout = [], stderr = [], exitCode = JsInt 0\<rparr>, sa))"
  using ifLoop_skip [of rec pre s sa "(Some condition, body) # post"]
        ifLoop_skip [of rec pre s sa "(None, body) # post"]
        ifLoop_skip [of rec pre s sa "[]"]
  by (auto simp: executeIfStatement_def)

lemma lines_plain:
  "plainLine ''false''" "plainLine ''echo c''" "plainLine ''echo two;''" "plainLine ''nosuch;''"
  "plainLine ''nosuch''"
  by code_simp+

lemma lines_parse:
  "parse e ''false'' = [\<lparr>commands = [\<lparr>parsed = simpleCommand ''false'' [], operator = OpNone\<rparr>]\<rparr>]"
  "parse e ''echo c'' = [\<lparr>commands = [\<lparr>parsed = simpleCommand ''echo'' [''c''], operator = OpNone\<rparr>]\<rparr>]"
  "parse e ''echo two;'' = [\<lparr>commands = [\<lparr>parsed = simpleCommand ''echo'' [''two''], operator = OpNone\<rparr>]\<rparr>]"
  "parse e ''nosuch;'' = [\<lparr>commands = [\<lparr>parsed = simpleCommand ''nosuch'' [], operator = OpNone\<rparr>]\<rparr>]"
  "parse e ''nosuch'' = [\<lparr>commands = [\<lparr>parsed = simpleCommand ''nosuch'' [], operator = OpNone\<rparr>]\<rparr>]"
  by code_simp+

lemma dispatch_echo:
  "dispatch rec memCollaborators (simpleCommand ''echo'' [w]) input initialEnv =
     Some (Inr \<lparr>stdout = expandVariables (env initialEnv) w @ ''\<newline>'', stderr = [], exitCode = JsInt 0\<rparr>, initialEnv)"
  by (simp add: engine_defs)

lemma expand_words: "expandVariables e ''c'' = ''c''" "expandVariables e ''two'' = ''two''"
  by code_simp+

lemma lines_exec:
  "exec (Suc n) memCollaborators ''false'' initialEnv =
     Some (Inr \<lparr>stdout = [], stderr = [], exitCode = JsInt 1\<rparr>, initialEnv)"
  "exec (Suc n) memCollaborators ''echo c'' initialEnv =
     Some (Inr \<lparr>stdout = ''c\<newline>'', stderr = [], exitCode = JsInt 0\<rparr>, initialEnv)"
  "exec (Suc n) memCollaborators ''echo two;'' initialEnv =
     Some (Inr \<lparr>stdout = ''two\<newline>'', stderr = [], exitCode = JsInt 0\<rparr>, initialEnv)"
  "exec (Suc n) memCollaborators ''nosuch;'' initialEnv =
     Some (Inr \<lparr>stdout = [], stderr = ''bash: nosuch: command not found\<newline>'', exitCode = JsInt 127\<rparr>, initialEnv)"
  "exec (Suc n) memCollaborators ''nosuch'' initialEnv =
     Some (Inr \<lparr>stdout = [], stderr = ''bash: nosuch: command not found\<newline>'', exitCode = JsInt 127\<rparr>, initialEnv)"
  by (simp_all add: exec_single [OF lines_plain(1) lines_parse(1)] exec_single [OF lines_plain(2) lines_parse(2)]
        exec_single [OF lines_plain(3) lines_parse(3)] exec_single [OF lines_plain(4) lines_parse(4)]
        exec_single [OF lines_plain(5) lines_parse(5)]
        dispatch_false dispatch_echo dispatch_missing expand_words del: exec.simps)

lemma parsed_ifs:
  "parseIfStatement ''if false; then echo one; elif echo c; then echo two; else echo three; fi''
     = Inr ([(Some ''false'', ''echo one;'')] @ (Some ''echo c'', ''echo two;'') # [(None, ''echo three;'')])"
  "parseIfStatement ''if false; then echo one; else nosuch; fi''
     = Inr ([(Some ''false'', ''echo one;'')] @ (None, ''nosuch;'') # [])"
  "parseIfStatement ''if false; then echo one; elif nosuch; then echo two; fi''
     = Inr [(Some ''false'', ''echo one;''), (Some ''nosuch'', ''echo two;'')]"
  by code_simp+

theorem executeIfStatement_result_witness:
  "executeIfStatement (exec (Suc 0) memCollaborators)
     ''if false; then echo one; elif echo c; then echo two; else echo three; fi'' initialEnv
     = Some (Inr \<lparr>stdout = ''two\<newline>'', stderr = [], exitCode = JsInt 0\<rparr>, initialEnv)
   \<and> executeIfStatement (exec (Suc 0) memCollaborators)
     ''if false; then echo one; else nosuch; fi'' initialEnv
     = Some (Inr \<lparr>stdout = [], stderr = ''bash: nosuch: command not found\<newline>'',
                  exitCode = JsInt 127\<rparr>, initialEnv)
   \<and> executeIfStatement (exec (Suc 0) memCollaborators)
     ''if false; then echo one; elif nosuch; then echo two; fi'' initialEnv
     = Some (Inr \<lparr>stdout = [], stderr = [], exitCode = JsInt 0\<rparr>, initialEnv)"
  using executeIfStatement_result
          [where rec = "exec (Suc 0) memCollaborators" and s = initialEnv and sa = initialEnv
             and sb = initialEnv and sc = initialEnv
             and input = "''if false; then echo one; elif echo c; then echo two; else echo three; fi''"
             and pre = "[(Some ''false'', ''echo one;'')]" and condition = "''echo c''"
             and body = "''echo two;''" and post = "[(None, ''echo three;'')]"
             and condResult = "\<lparr>stdout = ''c\<newline>'', stderr = [], exitCode = JsInt 0\<rparr>"
             and result = "\<lparr>stdout = ''two\<newline>'', stderr = [], exitCode = JsInt 0\<rparr>"]
        executeIfStatement_result
          [where rec = "exec (Suc 0) memCollaborators" and s = initialEnv and sa = initialEnv
             and sb = initialEnv
             and input = "''if false; then echo one; else nosuch; fi''"
             and pre = "[(Some ''false'', ''echo one;'')]"
             and body = "''nosuch;''" and post = "[]"
             and result = "\<lparr>stdout = [], stderr = ''bash: nosuch: command not found\<newline>'',
                            exitCode = JsInt 127\<rparr>"]
        executeIfStatement_result
          [where rec = "exec (Suc 0) memCollaborators" and s = initialEnv and sa = initialEnv
             and input = "''if false; then echo one; elif nosuch; then echo two; fi''"
             and pre = "[(Some ''false'', ''echo one;''), (Some ''nosuch'', ''echo two;'')]"]
  by (simp add: parsed_ifs lines_exec del: exec.simps)


section \<open>Several redirections of one stream\<close>













text \<open>
  On command lines: the same target twice is left empty; of three targets the first
  holds the content; after a write that throws no later target is written; and a
  function or an unknown command writes to no target.
\<close>

lemma redirections_examples:
  "fileAfter 1 [''echo hi > /a > /a''] ''/a'' = Some []"
  "fileAfter 1 [''echo hi > /a > /b > /c''] ''/a'' = Some ''hi\<newline>''"
  "fileAfter 1 [''echo hi > /a > /b > /c''] ''/b'' = Some []"
  "fileAfter 1 [''echo hi > /a > /b > /c''] ''/c'' = Some []"
  "resultsOf 1 [''echo hi > / > /b''] = Some [Inl (Thrown ''EISDIR: illegal operation on a directory, write'')]"
  "fileAfter 1 [''echo hi > / > /b''] ''/b'' = None"
  "fileAfter 3 [''f() { echo hi; }'', ''f > /a > /b''] ''/a'' = None"
  "fileAfter 1 [''nosuch 2> /a 2> /b''] ''/a'' = None"
  by code_simp+


text \<open>
  \<^verbatim>\<open>executeCommand\<close> uses the redirections of a command for nothing when the
  registry has no command of that name: builtins, assignments, functions and unknown
  commands return before \<^verbatim>\<open>applyRedirections\<close>.
\<close>

theorem redirections_unused:
  assumes "commandRegistry C (commandNameOf (expandVariables (env s) cmd)) = None"
  shows "executeCommand rec C cmd as qs redirs input s = executeCommand rec C cmd as qs [] input s"
  using assms unfolding executeCommand_def runRegistered_def
  by (auto simp: Let_def split: sum.splits option.splits)

theorem redirections_unused_witness:
  "executeCommand (exec 0 memCollaborators) memCollaborators ''nosuch'' [] []
       [fileRedirection Stderr ''/a'' False] [] initialEnv
     = Some (Inr \<lparr>stdout = [], stderr = ''bash: nosuch: command not found\<newline>'',
                  exitCode = JsInt 127\<rparr>, initialEnv)"
  using redirections_unused
          [where C = memCollaborators and s = initialEnv and cmd = "''nosuch''"
             and rec = "exec 0 memCollaborators" and as = "[]" and qs = "[]"
             and redirs = "[fileRedirection Stderr ''/a'' False]" and input = "[]"]
  by (simp add: engine_defs)

section \<open>Errors thrown by collaborators\<close>

text \<open>
  An error thrown by \<^verbatim>\<open>cmd.execute\<close> of a registered command is caught: for a
  command without redirections, the result has exit code 1, an empty stdout and the
  stderr \<^verbatim>\<open>command: message\<close>, and the state keeps what the command did before it threw.
\<close>

theorem runRegistered_catches:
  assumes "commandRegistry C (commandNameOf expandedCommand) = Some impl"
      and "impl expandedArgs (fs s) (cwd s) (env s) input = (Inl (Thrown message), f', e')"
  shows "runRegistered C cmd expandedCommand expandedArgs [] input s =
           Some (Inr \<lparr>stdout = [], stderr = cmd @ '': '' @ message @ ''\<newline>'', exitCode = JsInt 1\<rparr>,
                 s\<lparr>fs := f', env := e'\<rparr>)"
  using assms by (simp add: runRegistered_def applyRedirections_def commandResult_def)

theorem runRegistered_catches_witness:
  "runRegistered
     (memCollaborators\<lparr>commandRegistry :=
        [''boom'' \<mapsto> (\<lambda>as f dir e input. (Inl (Thrown ''bang''), f, e))]\<rparr>)
     ''boom'' ''boom'' [] [] [] initialEnv =
   Some (Inr \<lparr>stdout = [], stderr = ''boom: bang\<newline>'', exitCode = JsInt 1\<rparr>, initialEnv)"
  using runRegistered_catches
          [where C = "memCollaborators\<lparr>commandRegistry :=
                        [''boom'' \<mapsto> (\<lambda>as f dir e input. (Inl (Thrown ''bang''), f, e))]\<rparr>"
             and expandedCommand = "''boom''" and cmd = "''boom''" and expandedArgs = "[]"
             and s = initialEnv and input = "[]" and message = "''bang''"
             and f' = "fs initialEnv" and e' = "env initialEnv"
             and impl = "\<lambda>as f dir e input. (Inl (Thrown ''bang''), f, e)"]
  by (simp add: commandNameOf_def)

text \<open>
  Claim C4 at a failing input: \<^verbatim>\<open>echo hi > /\<close> with a file system whose
  \<^verbatim>\<open>writeFile\<close> throws for a directory. \<^verbatim>\<open>applyRedirections\<close> runs after the
  \<^verbatim>\<open>try\<close> of \<^verbatim>\<open>executeCommand\<close>, so the error leaves \<^verbatim>\<open>exec\<close> as an error and
  not as a result.
\<close>

theorem redirection_error_escapes:
  "resultsOf 1 [''echo hi > /'']
     = Some [Inl (Thrown ''EISDIR: illegal operation on a directory, write'')]"
  by code_simp

section \<open>Recursive functions\<close>

lemma def_f: "parseFunctionDefinition (trim ''f() { f; }'') = Some (''f'', ''f;'')"
             "trim ''f() { f; }'' \<noteq> []"
  "\<not> (startsWith (trim ''f() { f; }'') ''if '' \<or> startsWith (trim ''f() { f; }'') ''if;'' \<or> trim ''f() { f; }'' = ''if'')"
  by code_simp+

lemma call_f_plain: "plainLine ''f;''" "plainLine ''f''"
  by code_simp+

lemma call_f_parse:
  "parse e ''f;'' = [\<lparr>commands = [\<lparr>parsed = simpleCommand ''f'' [], operator = OpNone\<rparr>]\<rparr>]"
  "parse e ''f'' = [\<lparr>commands = [\<lparr>parsed = simpleCommand ''f'' [], operator = OpNone\<rparr>]\<rparr>]"
  by code_simp+

lemma expand_f: "expandVariables e ''f'' = ''f''"
  by code_simp

lemma assignment_f: "assignmentOf ''f'' [] = None"
  by code_simp

lemma dispatch_f:
  assumes "functions_map s ''f'' = Some ''f;''"
  shows "dispatch rec memCollaborators (simpleCommand ''f'' []) input s =
         callFunction rec ''f;'' [] s"
  using assms
  by (simp add: dispatch_def executeCommand_def simpleCommand_def startsWith_def expand_f
        assignment_f memCollaborators_def)

lemma exec_f_diverges:
  "functions_map s ''f'' = Some ''f;'' \<Longrightarrow>
   exec n memCollaborators ''f;'' s = None \<and> exec n memCollaborators ''f'' s = None"
proof (induction n arbitrary: s)
  case 0
  show ?case by simp
next
  case (Suc n)
  have "callFunction (exec n memCollaborators) ''f;'' [] s = None"
    using Suc.IH [of "s\<lparr>localScopes := Map.empty # localScopes s, env := bindParameters [] (env s)\<rparr>"] Suc.prems
    by (simp add: callFunction_def)
  with Suc.prems show ?case
    by (simp add: exec_plain call_f_plain call_f_parse executePipeline_def dispatch_f del: exec.simps)
qed

text \<open>
  Claim C5 at a failing input: after \<^verbatim>\<open>f() { f; }\<close>, the call \<^verbatim>\<open>f\<close> does not
  return, whatever the bound on the nesting of \<^verbatim>\<open>exec\<close>: the engine has no call
  depth to exceed and recurses without end.
\<close>

theorem recursion_unbounded: "\<forall>n. resultsOf n [''f() { f; }'', ''f''] = None"
proof
  fix n
  show "resultsOf n [''f() { f; }'', ''f''] = None"
  proof (cases n)
    case 0
    then show ?thesis by (simp add: resultsOf_def)
  next
    case (Suc m)
    have "exec (Suc m) memCollaborators ''f'' (initialEnv\<lparr>functions_map := (functions_map initialEnv)(''f'' \<mapsto> ''f;'')\<rparr>) = None"
      using exec_f_diverges [of "initialEnv\<lparr>functions_map := (functions_map initialEnv)(''f'' \<mapsto> ''f;'')\<rparr>" "Suc m"]
      by simp
    with Suc show ?thesis
      using def_f by (simp add: resultsOf_def okResult_def)
  qed
qed


section \<open>Expansion of braced references\<close>

lemma braces_split:
  assumes "CHR ''}'' \<notin> set content"
  shows "takeWhile (\<lambda>x. x \<noteq> CHR ''}'') (content @ CHR ''}'' # rest) = content"
    and "dropWhile (\<lambda>x. x \<noteq> CHR ''}'') (content @ CHR ''}'' # rest) = CHR ''}'' # rest"
  using assms by (induction content) auto

lemma expandVariables_braced:
  assumes "CHR ''}'' \<notin> set content"
  shows "expandVariables e (''${'' @ content @ ''}'' @ rest) = expandBraced e content @ expandVariables e rest"
  using assms by (simp add: braces_split)

lemma expandVariable_braced:
  assumes "CHR ''}'' \<notin> set content"
  shows "expandVariable e (''{'' @ content @ ''}'' @ rest) = (expandBraced e content, rest)"
  using assms by (simp add: expandVariable_def braces_split)

lemma colon_split:
  assumes "CHR '':'' \<notin> set name"
  shows "takeWhile (\<lambda>x. x \<noteq> CHR '':'') (name @ CHR '':'' # rest) = name"
    and "dropWhile (\<lambda>x. x \<noteq> CHR '':'') (name @ CHR '':'' # rest) = CHR '':'' # rest"
  using assms by (induction name) auto

lemma defaultMatch_default:
  assumes "name \<noteq> []" "CHR '':'' \<notin> set name" "\<not> list_ex isLineTerminator dflt"
  shows "defaultMatch (name @ CHR '':'' # CHR ''-'' # dflt) = Some (name, dflt)"
  using assms by (simp add: defaultMatch_def colon_split)

lemma defaultMatch_plain:
  assumes "CHR '':'' \<notin> set name"
  shows "defaultMatch name = None"
proof -
  from assms have "dropWhile (\<lambda>x. x \<noteq> CHR '':'') name = []" by auto
  show ?thesis unfolding defaultMatch_def Let_def \<open>dropWhile (\<lambda>x. x \<noteq> CHR '':'') name = []\<close>
    by simp
qed

text \<open>
  A reference \<^verbatim>\<open>${NAME:-default}\<close> at the start of the text, with a non-empty name
  without colon and a default without line terminator (neither holds a closing brace):
  the value of \<^verbatim>\<open>this.env[NAME]\<close> is substituted when it is not \<^verbatim>\<open>undefined\<close>,
  also when it is the empty string, and the default otherwise. For a name that
  \<^verbatim>\<open>Object.prototype\<close> defines, such as \<^verbatim>\<open>valueOf\<close>, the value is the inherited one.
\<close>

theorem expandVariables_default:
  assumes "name \<noteq> []" "CHR '':'' \<notin> set name" "CHR ''}'' \<notin> set name"
      and "CHR ''}'' \<notin> set dflt" "\<not> list_ex isLineTerminator dflt"
  shows "expandVariables e (''${'' @ name @ '':-'' @ dflt @ ''}'' @ rest) =
           (case envGet e name of Some v \<Rightarrow> valueText v | None \<Rightarrow> dflt)
             @ expandVariables e rest"
proof -
  from assms have "CHR ''}'' \<notin> set (name @ '':-'' @ dflt)" by simp
  from expandVariables_braced [OF this, of e rest] assms show ?thesis
    by (simp add: expandBraced_def defaultMatch_default lookupOr_def)
qed

theorem expandVariables_default_witness:
  "expandVariables [''X'' \<mapsto> Str []] ''${X:-d}!'' = ''!''
   \<and> expandVariables Map.empty ''${X:-d}!'' = ''d!''"
  using expandVariables_default [where name = "''X''" and dflt = "''d''" and rest = "''!''"
                                   and e = "[''X'' \<mapsto> Str []]"]
        expandVariables_default [where name = "''X''" and dflt = "''d''" and rest = "''!''"
                                   and e = "Map.empty"]
  by (simp add: isLineTerminator_def envGet_def valueText_def prototypeNames_def)

text \<open>
  A reference \<^verbatim>\<open>${NAME}\<close> at the start of the text to a name (without colon and
  closing brace) for which \<^verbatim>\<open>this.env[NAME]\<close> is \<^verbatim>\<open>undefined\<close>, that is, a name
  absent from the environment that \<^verbatim>\<open>Object.prototype\<close> does not define either, is
  replaced by the empty string.
\<close>

theorem expandVariables_absent_braced:
  assumes "envGet e name = None" "CHR '':'' \<notin> set name" "CHR ''}'' \<notin> set name"
  shows "expandVariables e (''${'' @ name @ ''}'' @ rest) = expandVariables e rest"
  using expandVariables_braced [OF assms(3), of e rest] assms
  by (simp add: expandBraced_def defaultMatch_plain lookupOr_def)

theorem expandVariables_absent_braced_witness:
  "expandVariables Map.empty ''${UNDEFINED}x'' = ''x''"
  using expandVariables_absent_braced
          [where name = "''UNDEFINED''" and rest = "''x''" and e = Map.empty]
  by (simp add: envGet_def prototypeNames_def)

text \<open>
  A name that \<^verbatim>\<open>Object.prototype\<close> defines is absent from the environment and yet
  substituted by the text of the inherited value.
\<close>

lemma inherited_name_substituted:
  "expandVariables Map.empty ''$valueOf'' = ''function valueOf() { [native code] }''"
  "resultsOf 1 [''echo ${toString:-d}'']
     = Some [Inr \<lparr>stdout = ''function toString() { [native code] }\<newline>'', stderr = [],
                  exitCode = JsInt 0\<rparr>]"
  by code_simp+

text \<open>
  Claim C9 at a failing input: the default of \<^verbatim>\<open>${X:-default}\<close> holds a line feed
  and \<^verbatim>\<open>X\<close> is absent. The regular expression does not match, the whole text
  between the braces is looked up as a name, and the empty string is substituted, at
  execution time and inside double quotes alike. Without the line feed the default is
  substituted.
\<close>

theorem default_with_line_feed_dropped:
  "expandVariables Map.empty ''${X:-a\<newline>b}'' = []
   \<and> fst (expandVariable Map.empty ''{X:-a\<newline>b}'') = []
   \<and> resultsOf 1 [''echo \"${X:-a\<newline>b}\"'']
       = Some [Inr \<lparr>stdout = ''\<newline>'', stderr = [], exitCode = JsInt 0\<rparr>]
   \<and> resultsOf 1 [''echo \"${X:-ab}\"'']
       = Some [Inr \<lparr>stdout = ''ab\<newline>'', stderr = [], exitCode = JsInt 0\<rparr>]"
  by code_simp

section \<open>Local variables\<close>

lemma envGet_own: "name \<notin> set prototypeNames \<Longrightarrow> envGet e name = e name"
  by (simp add: envGet_def split: option.splits)

lemma envGet_cong: "e name = e' name \<Longrightarrow> envGet e name = envGet e' name"
  by (simp add: envGet_def)

lemma envSet_other: "v \<noteq> name \<Longrightarrow> envSet e name x v = e v"
  by (simp add: envSet_def)

lemma envSet_own: "name \<notin> set prototypeNames \<Longrightarrow> envSet e name x = e(name \<mapsto> x)"
  by (auto simp: envSet_def prototypeNames_def)

lemma localArg_scope:
  "fst (localArg arg (sc, e)) =
     (if sc (localName arg) = None then sc(localName arg \<mapsto> envGet e (localName arg)) else sc)"
  by (simp add: localArg_def localName_def Let_def split: option.splits)

lemma localArg_env_other:
  "v \<noteq> localName arg \<Longrightarrow> snd (localArg arg (sc, e)) v = e v"
  by (simp add: localArg_def localName_def Let_def envSet_other split: option.splits)

lemma localLoop_keeps:
  "sc v = Some recorded \<Longrightarrow> fst (localLoop as (sc, e)) v = Some recorded"
proof (induction as arbitrary: sc e)
  case Nil
  then show ?case by simp
next
  case (Cons a as)
  have "fst (localArg a (sc, e)) v = Some recorded"
    using Cons.prems by (auto simp: localArg_scope)
  from Cons.IH [where sc = "fst (localArg a (sc, e))" and e = "snd (localArg a (sc, e))", OF this]
  show ?case by simp
qed

lemma localLoop_records:
  "sc v = None \<Longrightarrow> v \<in> set (map localName as) \<Longrightarrow>
   fst (localLoop as (sc, e)) v = Some (envGet e v)"
proof (induction as arbitrary: sc e)
  case Nil
  then show ?case by simp
next
  case (Cons a as)
  show ?case
  proof (cases "localName a = v")
    case True
    with Cons.prems have "fst (localArg a (sc, e)) v = Some (envGet e v)"
      by (simp add: localArg_scope)
    from localLoop_keeps [where sc = "fst (localArg a (sc, e))" and v = v
                            and e = "snd (localArg a (sc, e))" and as = as, OF this]
    show ?thesis by simp
  next
    case False
    with Cons.prems have a: "fst (localArg a (sc, e)) v = None" and b: "v \<in> set (map localName as)"
      by (auto simp: localArg_scope)
    from False have "snd (localArg a (sc, e)) v = e v"
      by (simp add: localArg_env_other)
    then have c: "envGet (snd (localArg a (sc, e))) v = envGet e v"
      by (rule envGet_cong)
    from Cons.IH [where sc = "fst (localArg a (sc, e))" and e = "snd (localArg a (sc, e))", OF a b] c
    show ?thesis by simp
  qed
qed

lemma envHas_envGet: "envHas e name = (envGet e name \<noteq> None)"
  by (simp add: envHas_def envGet_def split: option.splits)

lemma envGet_None: "envGet e name = None \<Longrightarrow> name \<notin> set prototypeNames"
  by (simp add: envGet_def split: option.splits if_splits)

lemma localArg_plain:
  assumes "splitAssignment name = None"
  shows "envGet (snd (localArg name (sc, e))) name =
           (if envGet e name = None then Some (Str []) else envGet e name)"
proof (cases "envGet e name = None")
  case True
  then have "name \<notin> set prototypeNames" by (rule envGet_None)
  then have "envGet (envSet e name (Str [])) name = Some (Str [])"
    by (simp add: envSet_own envGet_own)
  with True assms show ?thesis by (simp add: localArg_def Let_def envHas_envGet)
next
  case False
  with assms show ?thesis by (simp add: localArg_def Let_def envHas_envGet)
qed

lemma fold_delete_other:
  "v \<notin> stringOfNat ` set ns \<Longrightarrow> fold (\<lambda>i e'. e'(stringOfNat i := None)) ns e v = e v"
  by (induction ns arbitrary: e) simp_all

lemma clearParameters_other:
  "v \<notin> set (positionalNames expandedArgs) \<Longrightarrow> clearParameters expandedArgs e v = e v"
  using fold_delete_other [of v "[1 ..< length expandedArgs + 1]" e]
  by (simp add: clearParameters_def positionalNames_def del: upt_Suc)

lemma restoreScope_recorded:
  "localScope v = Some original \<Longrightarrow> v \<notin> set prototypeNames \<Longrightarrow>
   restoreScope localScope e v = original"
  by (cases original) (simp_all add: restoreScope_def envSet_own)

text \<open>
  Claim C6, as stated, fails: a variable that the body assigns before \<^verbatim>\<open>local\<close>
  touches it is restored to the assigned value, not to its value before the call.
\<close>

theorem local_restores_recorded_not_precall:
  "variableAfter 3 [''export x=outer'', ''f() { x=mid; local x=inner; }'', ''f''] ''x''
     = Some (Str ''mid'')"
  by code_simp

text \<open>
  A name that \<^verbatim>\<open>Object.prototype\<close> defines is not a property of the environment
  before the call, and is one after it: \<^verbatim>\<open>local valueOf\<close> records the inherited
  function, sets nothing, and the restore assigns the function.
\<close>

lemma local_inherited_name:
  "variableAfter 3 [''f() { local valueOf; echo \"[$valueOf]\"; }''] ''valueOf'' = None"
  "variableAfter 3 [''f() { local valueOf; echo \"[$valueOf]\"; }'', ''f''] ''valueOf''
     = Some (Native ''valueOf'')"
  "resultsOf 3 [''f() { local valueOf; echo \"[$valueOf]\"; }'', ''f'']
     = Some [Inr okResult,
             Inr \<lparr>stdout = ''[function valueOf() { [native code] }]\<newline>'', stderr = [],
                  exitCode = JsInt 0\<rparr>]"
  by code_simp+

text \<open>
  Claim C6, amended. When the body of a function call returns a result, the call
  returns it, pops the frame, and every variable the frame recorded, other than the
  names the call itself binds and deletes (\<^verbatim>\<open>1\<close> to \<^verbatim>\<open>N\<close>, \<^verbatim>\<open>@\<close>, \<^verbatim>\<open>#\<close>) and
  the names that \<^verbatim>\<open>Object.prototype\<close> defines, has the recorded value again, or is
  absent if it was recorded as absent. \<^verbatim>\<open>local\<close> leaves what the frame already
  recorded for a variable as it is; for a variable not yet recorded that one of its
  arguments names, it records the value \<^verbatim>\<open>this.env[NAME]\<close> has before the command
  (\<^verbatim>\<open>undefined\<close> included); and \<^verbatim>\<open>local NAME\<close> without a value sets \<^verbatim>\<open>NAME\<close> to
  the empty string when \<^verbatim>\<open>this.env[NAME]\<close> is \<^verbatim>\<open>undefined\<close>, and leaves the value as
  it is otherwise.
\<close>

theorem local_scope_restored:
  "(rec funcBody (s\<lparr>localScopes := Map.empty # localScopes s,
                    env := bindParameters expandedArgs (env s)\<rparr>) = Some (Inr result, s')
      \<and> localScopes s' = frame # outer \<and> frame v = Some original
      \<and> v \<notin> set (positionalNames expandedArgs) \<and> v \<notin> set prototypeNames
     \<longrightarrow> (\<exists>sb. callFunction rec funcBody expandedArgs s = Some (Inr result, sb)
               \<and> localScopes sb = outer \<and> env sb v = original))
   \<and> (localScopes s = currentScope # outer \<and> currentScope v = Some recorded
     \<longrightarrow> hd (localScopes (snd (handleLocal as s))) v = Some recorded)
   \<and> (localScopes s = currentScope # outer \<and> currentScope v = None \<and> v \<in> set (map localName as)
     \<longrightarrow> hd (localScopes (snd (handleLocal as s))) v = Some (envGet (env s) v))
   \<and> (localScopes s = currentScope # outer \<and> splitAssignment name = None
     \<longrightarrow> envGet (env (snd (handleLocal [name] s))) name =
           (if envGet (env s) name = None then Some (Str []) else envGet (env s) name))"
  by (auto simp: callFunction_def clearParameters_other restoreScope_recorded handleLocal_def
        localLoop_keeps localLoop_records localArg_plain)


lemma local_line:
  "plainLine ''local x=inner''"
  "parse e ''local x=inner'' =
     [\<lparr>commands = [\<lparr>parsed = simpleCommand ''local'' [''x=inner''], operator = OpNone\<rparr>]\<rparr>]"
  "expandVariables e ''local'' = ''local''"
  "expandVariables e ''x=inner'' = ''x=inner''"
  "splitAssignment ''x=inner'' = Some (''x'', ''inner'')"
  "splitAssignment ''x=again'' = Some (''x'', ''again'')"
  "splitAssignment ''y'' = None"
  "localName ''x=inner'' = ''x''"
  "positionalNames [] = [''@'', ''#'']"
  by code_simp+

lemma dispatch_local:
  assumes "localScopes s = currentScope # outer"
  shows "dispatch rec memCollaborators (simpleCommand ''local'' [''x=inner'']) input s =
           Some (Inr okResult,
                 s\<lparr>env := snd (localLoop [''x=inner''] (currentScope, env s)),
                   localScopes := fst (localLoop [''x=inner''] (currentScope, env s)) # outer\<rparr>)"
  using assms
  by (simp add: dispatch_def executeCommand_def simpleCommand_def startsWith_def local_line
        memCollaborators_def handleLocal_def)

theorem local_scope_restored_witness:
  "(\<exists>sb. callFunction (exec (Suc 0) memCollaborators) ''local x=inner'' []
            (initialEnv\<lparr>env := (env initialEnv)(''x'' \<mapsto> Str ''outer'')\<rparr>) = Some (Inr okResult, sb)
         \<and> localScopes sb = [] \<and> env sb ''x'' = Some (Str ''outer''))
   \<and> hd (localScopes (snd (handleLocal [''x=again'']
           (initialEnv\<lparr>localScopes := [[''x'' \<mapsto> Some (Str ''outer'')]]\<rparr>)))) ''x''
       = Some (Some (Str ''outer''))
   \<and> hd (localScopes (snd (handleLocal [''x=inner'']
           (initialEnv\<lparr>env := (env initialEnv)(''x'' \<mapsto> Str ''outer''),
                       localScopes := [Map.empty]\<rparr>)))) ''x'' = Some (Some (Str ''outer''))
   \<and> envGet (env (snd (handleLocal [''y''] (initialEnv\<lparr>localScopes := [Map.empty]\<rparr>)))) ''y''
       = Some (Str [])"
proof -
  let ?s = "initialEnv\<lparr>env := (env initialEnv)(''x'' \<mapsto> Str ''outer'')\<rparr>"
  let ?pushed = "?s\<lparr>localScopes := Map.empty # localScopes ?s, env := bindParameters [] (env ?s)\<rparr>"
  have "\<exists>s'. exec (Suc 0) memCollaborators ''local x=inner'' ?pushed = Some (Inr okResult, s')
            \<and> localScopes s' = [''x'' \<mapsto> Some (Str ''outer'')] # [] "
    by (simp add: exec_single [OF local_line(1) local_line(2) dispatch_local] local_line
          localArg_def Let_def bindParameters_def initialEnv_def envGet_def envSet_def
          del: exec.simps)
  then obtain s' where
    run: "exec (Suc 0) memCollaborators ''local x=inner'' ?pushed = Some (Inr okResult, s')" and
    top: "localScopes s' = [''x'' \<mapsto> Some (Str ''outer'')] # []" by blast
  from local_scope_restored
         [where rec = "exec (Suc 0) memCollaborators" and funcBody = "''local x=inner''"
            and s = ?s and expandedArgs = "[]" and result = okResult and s' = s'
            and frame = "[''x'' \<mapsto> Some (Str ''outer'')]" and outer = "[]" and v = "''x''"
            and original = "Some (Str ''outer'')"]
       run top
  have a: "\<exists>sb. callFunction (exec (Suc 0) memCollaborators) ''local x=inner'' [] ?s = Some (Inr okResult, sb)
         \<and> localScopes sb = [] \<and> env sb ''x'' = Some (Str ''outer'')"
    by (simp add: local_line prototypeNames_def del: exec.simps)
  from local_scope_restored
         [where s = "initialEnv\<lparr>localScopes := [[''x'' \<mapsto> Some (Str ''outer'')]]\<rparr>"
            and currentScope = "[''x'' \<mapsto> Some (Str ''outer'')]" and outer = "[]" and v = "''x''"
            and recorded = "Some (Str ''outer'')" and as = "[''x=again'']"]
  have b: "hd (localScopes (snd (handleLocal [''x=again'']
           (initialEnv\<lparr>localScopes := [[''x'' \<mapsto> Some (Str ''outer'')]]\<rparr>)))) ''x''
             = Some (Some (Str ''outer''))"
    by simp
  from local_scope_restored
         [where s = "initialEnv\<lparr>env := (env initialEnv)(''x'' \<mapsto> Str ''outer''), localScopes := [Map.empty]\<rparr>"
            and currentScope = "Map.empty" and outer = "[]" and v = "''x''"
            and as = "[''x=inner'']"]
  have c: "hd (localScopes (snd (handleLocal [''x=inner'']
           (initialEnv\<lparr>env := (env initialEnv)(''x'' \<mapsto> Str ''outer''),
                       localScopes := [Map.empty]\<rparr>)))) ''x'' = Some (Some (Str ''outer''))"
    by (simp add: local_line envGet_def)
  from local_scope_restored
         [where s = "initialEnv\<lparr>localScopes := [Map.empty]\<rparr>"
            and currentScope = "Map.empty" and outer = "[]" and name = "''y''"]
  have d: "envGet (env (snd (handleLocal [''y''] (initialEnv\<lparr>localScopes := [Map.empty]\<rparr>)))) ''y''
             = Some (Str [])"
    by (simp add: local_line initialEnv_def envGet_def prototypeNames_def)
  from a b c d show ?thesis by blast
qed


end
